theory Spec2Isabelle
  imports Main "HOL-Library.Word" "HOL-Library.Sublist"
begin

section \<open>Strings, integers and formatting\<close>

text \<open>
  Go strings are byte sequences, so a Go \<^verbatim>\<open>string\<close> is a \<^typ>\<open>string\<close> (a list of
  8-bit characters) and a character outside ASCII is the list of its UTF-8 bytes. The
  pictographs of the message templates are named once here.
\<close>

type_synonym int32 = "32 word"

abbreviation POLICE_LIGHT :: string where
  "POLICE_LIGHT \<equiv> [CHR 0xF0, CHR 0x9F, CHR 0x9A, CHR 0xA8]"
abbreviation CROSS_MARK :: string where
  "CROSS_MARK \<equiv> [CHR 0xE2, CHR 0x9D, CHR 0x8C]"
abbreviation THINKING_FACE :: string where
  "THINKING_FACE \<equiv> [CHR 0xF0, CHR 0x9F, CHR 0xA4, CHR 0x94]"
abbreviation MEMO :: string where
  "MEMO \<equiv> [CHR 0xF0, CHR 0x9F, CHR 0x93, CHR 0x9D]"
abbreviation WRENCH :: string where
  "WRENCH \<equiv> [CHR 0xF0, CHR 0x9F, CHR 0x94, CHR 0xA7]"
abbreviation BUG :: string where
  "BUG \<equiv> [CHR 0xF0, CHR 0x9F, CHR 0x90, CHR 0x9B]"
abbreviation BAR_CHART :: string where
  "BAR_CHART \<equiv> [CHR 0xF0, CHR 0x9F, CHR 0x93, CHR 0x8A]"
abbreviation LIGHT_BULB :: string where
  "LIGHT_BULB \<equiv> [CHR 0xF0, CHR 0x9F, CHR 0x92, CHR 0xA1]"
abbreviation RIGHT_ARROW :: string where
  "RIGHT_ARROW \<equiv> [CHR 0xE2, CHR 0x86, CHR 0x92]"
abbreviation MAGNIFIER :: string where
  "MAGNIFIER \<equiv> [CHR 0xF0, CHR 0x9F, CHR 0x94, CHR 0x8D]"

text \<open>
  The verb \<^verbatim>\<open>%d\<close> of \<^verbatim>\<open>fmt.Sprintf\<close> on an \<^verbatim>\<open>int32\<close>: the decimal digits of the
  signed value, with a leading minus sign when it is negative.
\<close>

fun digits :: "nat \<Rightarrow> string" where
  "digits n =
     (if n < 10 then [''0123456789'' ! n]
      else digits (n div 10) @ [''0123456789'' ! (n mod 10)])"

declare digits.simps [simp del]

definition fmt_d :: "int32 \<Rightarrow> string" where
  "fmt_d code =
     (if sint code < 0 then ''-'' @ digits (nat (- sint code)) else digits (nat (sint code)))"

section \<open>The explainer (pkg/explainer/explainer.go)\<close>

text \<open>FailureInfo contains details about a pod failure.\<close>

record FailureInfo =
  PodName :: string
  Namespace :: string
  ContainerName :: string
  Reason :: string
  Message :: string
  ExitCode :: int32
  LastLog :: string

text \<open>
  The switch of \<open>explainExitCode\<close> is a chain of tests in the order of its cases. Each
  template below builds its text by appending to a string; the pieces are listed in the
  order of the appends, and an append under a condition is a piece that may be empty.
\<close>

definition explainExitCode :: "int32 \<Rightarrow> string" where
  "explainExitCode code =
     (if code = 0 then RIGHT_ARROW @ '' Exit code 0: Success (but should not crash)''
      else if code = 1 then RIGHT_ARROW @ '' Exit code 1: Application error - check your code for bugs''
      else if code = 2 then RIGHT_ARROW @ '' Exit code 2: Misuse of shell command''
      else if code = 126 then RIGHT_ARROW @ '' Exit code 126: Command cannot execute (permission problem?)''
      else if code = 127 then RIGHT_ARROW @ '' Exit code 127: Command not found (binary doesn't exist?)''
      else if code = 130 then RIGHT_ARROW @ '' Exit code 130: Terminated by Ctrl+C (SIGINT)''
      else if code = 137 then RIGHT_ARROW @ '' Exit code 137: Killed by SIGKILL (usually OOM or forced termination)''
      else if code = 139 then RIGHT_ARROW @ '' Exit code 139: Segmentation fault (memory access violation)''
      else if code = 143 then RIGHT_ARROW @ '' Exit code 143: Terminated by SIGTERM (graceful shutdown)''
      else if code = 255 then RIGHT_ARROW @ '' Exit code 255: Exit status out of range''
      else RIGHT_ARROW @ '' Exit code '' @ fmt_d code @ '': Check application documentation'')"

definition explainCrashLoopBackOff :: "FailureInfo \<Rightarrow> string" where
  "explainCrashLoopBackOff info = concat [
     CROSS_MARK @ '' WHAT HAPPENED:\<newline>'',
     ''Your container keeps crashing and restarting.\<newline>\<newline>'',
     THINKING_FACE @ '' WHAT THIS MEANS:\<newline>'',
     ''The application inside the container starts but then immediately fails.\<newline>'',
     ''Kubernetes tried to restart it multiple times but it keeps crashing.\<newline>\<newline>'',
     (if ExitCode info \<noteq> 0 then concat [
         ''Exit Code: '' @ fmt_d (ExitCode info) @ ''\<newline>'',
         explainExitCode (ExitCode info) @ ''\<newline>\<newline>'']
      else []),
     (if LastLog info \<noteq> '''' then concat [
         MEMO @ '' LAST ERROR MESSAGE:\<newline>'',
         LastLog info @ ''\<newline>\<newline>'']
      else []),
     WRENCH @ '' HOW TO FIX:\<newline>'',
     ''1. Check application logs for startup errors\<newline>'',
     ''2. Verify environment variables and configuration\<newline>'',
     ''3. Test the container image locally\<newline>'',
     ''4. Check dependencies (database, APIs, etc.)\<newline>\<newline>'',
     BUG @ '' DEBUG COMMANDS:\<newline>'',
     ''-------------------\<newline>\<newline>'',
     ''# 1. View recent logs (last 50 lines)\<newline>'',
     ''kubectl logs '' @ PodName info @ '' -n '' @ Namespace info @ '' --tail=50\<newline>\<newline>'',
     ''# 2. View logs from previous crash\<newline>'',
     ''kubectl logs '' @ PodName info @ '' -n '' @ Namespace info @ '' --previous\<newline>\<newline>'',
     ''# 3. View all logs with timestamps\<newline>'',
     ''kubectl logs '' @ PodName info @ '' -n '' @ Namespace info @ '' --timestamps=true --all-containers=true\<newline>\<newline>'',
     ''# 4. Stream logs in real-time\<newline>'',
     ''kubectl logs '' @ PodName info @ '' -n '' @ Namespace info @ '' -f\<newline>\<newline>'',
     ''# 5. Get detailed pod information\<newline>'',
     ''kubectl describe pod '' @ PodName info @ '' -n '' @ Namespace info @ ''\<newline>\<newline>'',
     ''# 6. Check pod events (last activities)\<newline>'',
     ''kubectl get events -n '' @ Namespace info @ '' --field-selector involvedObject.name='' @ PodName info @ '' --sort-by='.lastTimestamp'\<newline>\<newline>'',
     ''# 7. Get pod YAML configuration\<newline>'',
     ''kubectl get pod '' @ PodName info @ '' -n '' @ Namespace info @ '' -o yaml\<newline>\<newline>'',
     ''# 8. Check environment variables\<newline>'',
     ''kubectl exec '' @ PodName info @ '' -n '' @ Namespace info @ '' -- env\<newline>\<newline>'',
     ''# 9. Try to exec into container (if it stays up long enough)\<newline>'',
     ''kubectl exec -it '' @ PodName info @ '' -n '' @ Namespace info @ '' -- /bin/sh\<newline>\<newline>'',
     ''# 10. Check resource usage\<newline>'',
     ''kubectl top pod '' @ PodName info @ '' -n '' @ Namespace info @ ''\<newline>\<newline>'',
     BAR_CHART @ '' COMMON CAUSES:\<newline>'',
     ''- Missing required environment variables\<newline>'',
     ''- Database connection failures\<newline>'',
     ''- External service unavailable\<newline>'',
     ''- Configuration file errors\<newline>'',
     ''- Application code bugs\<newline>'',
     ''- Port already in use\<newline>'',
     ''- File system permissions\<newline>'']"

definition explainImagePullError :: "FailureInfo \<Rightarrow> string" where
  "explainImagePullError info = concat [
     CROSS_MARK @ '' WHAT HAPPENED:\<newline>'',
     ''Kubernetes cannot download your container image.\<newline>\<newline>'',
     THINKING_FACE @ '' WHAT THIS MEANS:\<newline>'',
     ''The image specified in your deployment doesn't exist, has the wrong name,\<newline>'',
     ''or Kubernetes doesn't have permission to pull it from the registry.\<newline>\<newline>'',
     WRENCH @ '' HOW TO FIX:\<newline>'',
     ''1. Verify the image name and tag are correct\<newline>'',
     ''2. Check if the image exists in the registry\<newline>'',
     ''3. Ensure image pull secrets are configured correctly\<newline>'',
     ''4. Verify registry credentials are valid\<newline>\<newline>'',
     BUG @ '' DEBUG COMMANDS:\<newline>'',
     ''-------------------\<newline>\<newline>'',
     ''# 1. Check pod description for image details\<newline>'',
     ''kubectl describe pod '' @ PodName info @ '' -n '' @ Namespace info @ '' | grep -A5 'Image'\<newline>\<newline>'',
     ''# 2. View detailed error message\<newline>'',
     ''kubectl describe pod '' @ PodName info @ '' -n '' @ Namespace info @ '' | grep -A10 'Events'\<newline>\<newline>'',
     ''# 3. Get pod events\<newline>'',
     ''kubectl get events -n '' @ Namespace info @ '' --field-selector involvedObject.name='' @ PodName info @ ''\<newline>\<newline>'',
     ''# 4. Check if image pull secret exists\<newline>'',
     ''kubectl get secrets -n '' @ Namespace info @ ''\<newline>\<newline>'',
     ''# 5. Describe the image pull secret\<newline>'',
     ''kubectl get secret  -n '' @ Namespace info @ '' -o yaml\<newline>\<newline>'',
     ''# 6. Test pulling the image locally (if using Docker)\<newline>'',
     ''# First, get the image name from pod:\<newline>'',
     ''kubectl get pod '' @ PodName info @ '' -n '' @ Namespace info @ '' -o jsonpath='{.spec.containers[*].image}'\<newline>'',
     ''# Then try pulling it:\<newline>'',
     ''docker pull \<newline>\<newline>'',
     ''# 7. Check deployment/pod spec\<newline>'',
     ''kubectl get pod '' @ PodName info @ '' -n '' @ Namespace info @ '' -o yaml | grep -A5 'image:'\<newline>\<newline>'',
     ''# 8. List all image pull secrets in namespace\<newline>'',
     ''kubectl get serviceaccount default -n '' @ Namespace info @ '' -o yaml | grep -A3 'imagePullSecrets'\<newline>\<newline>'',
     BAR_CHART @ '' COMMON CAUSES:\<newline>'',
     ''- Typo in image name or tag\<newline>'',
     ''- Image doesn't exist in registry\<newline>'',
     ''- Private registry without credentials\<newline>'',
     ''- Expired or invalid image pull secret\<newline>'',
     ''- Wrong registry URL\<newline>'',
     ''- Tag 'latest' doesn't exist\<newline>'',
     ''- Network issues accessing registry\<newline>\<newline>'',
     LIGHT_BULB @ '' CREATE IMAGE PULL SECRET:\<newline>'',
     ''kubectl create secret docker-registry regcred '' @ [CHR 0x5C] @ ''\<newline>'',
     ''  --docker-server= '' @ [CHR 0x5C] @ ''\<newline>'',
     ''  --docker-username= '' @ [CHR 0x5C] @ ''\<newline>'',
     ''  --docker-password= '' @ [CHR 0x5C] @ ''\<newline>'',
     ''  --docker-email= '' @ [CHR 0x5C] @ ''\<newline>'',
     ''  -n '' @ Namespace info @ ''\<newline>'']"

definition explainOOMKilled :: "FailureInfo \<Rightarrow> string" where
  "explainOOMKilled info = concat [
     CROSS_MARK @ '' WHAT HAPPENED:\<newline>'',
     ''Your container ran out of memory (OOM = Out Of Memory).\<newline>\<newline>'',
     THINKING_FACE @ '' WHAT THIS MEANS:\<newline>'',
     ''The application used more memory than the limit you set.\<newline>'',
     ''Kubernetes killed it to prevent affecting other pods on the node.\<newline>\<newline>'',
     WRENCH @ '' HOW TO FIX:\<newline>'',
     ''1. Increase memory limits in your deployment\<newline>'',
     ''2. Fix memory leaks in your application\<newline>'',
     ''3. Optimize memory usage\<newline>'',
     ''4. Use memory profiling tools\<newline>\<newline>'',
     BUG @ '' DEBUG COMMANDS:\<newline>'',
     ''-------------------\<newline>\<newline>'',
     ''# 1. Check current memory limits\<newline>'',
     ''kubectl get pod '' @ PodName info @ '' -n '' @ Namespace info @ '' -o jsonpath='{.spec.containers[*].resources}'\<newline>\<newline>'',
     ''# 2. View actual memory usage (if metrics-server is installed)\<newline>'',
     ''kubectl top pod '' @ PodName info @ '' -n '' @ Namespace info @ ''\<newline>\<newline>'',
     ''# 3. Check historical resource usage\<newline>'',
     ''kubectl describe pod '' @ PodName info @ '' -n '' @ Namespace info @ '' | grep -A5 'Limits'' @ [CHR 0x5C] @ ''|Requests'\<newline>\<newline>'',
     ''# 4. View OOM events\<newline>'',
     ''kubectl get events -n '' @ Namespace info @ '' --field-selector reason=OOMKilling\<newline>\<newline>'',
     ''# 5. Check node memory pressure\<newline>'',
     ''kubectl describe nodes | grep -A5 'Memory'\<newline>\<newline>'',
     ''# 6. Get pod restart count\<newline>'',
     ''kubectl get pod '' @ PodName info @ '' -n '' @ Namespace info @ '' -o jsonpath='{.status.containerStatuses[*].restartCount}'\<newline>\<newline>'',
     ''# 7. View logs before OOM kill\<newline>'',
     ''kubectl logs '' @ PodName info @ '' -n '' @ Namespace info @ '' --previous --tail=100\<newline>\<newline>'',
     BAR_CHART @ '' HOW TO INCREASE MEMORY:\<newline>\<newline>'',
     ''Edit your deployment/pod spec:\<newline>\<newline>'',
     ''resources:\<newline>'',
     ''  requests:\<newline>'',
     ''    memory: '' @ [CHR 0x22] @ ''256Mi'' @ [CHR 0x22] @ ''  # Minimum guaranteed\<newline>'',
     ''  limits:\<newline>'',
     ''    memory: '' @ [CHR 0x22] @ ''512Mi'' @ [CHR 0x22] @ ''  # Maximum allowed (INCREASE THIS)\<newline>\<newline>'',
     ''Then apply changes:\<newline>'',
     ''kubectl edit deployment  -n '' @ Namespace info @ ''\<newline>\<newline>'',
     BAR_CHART @ '' COMMON CAUSES:\<newline>'',
     ''- Memory limit set too low\<newline>'',
     ''- Memory leak in application\<newline>'',
     ''- Loading too much data at once\<newline>'',
     ''- Inefficient caching\<newline>'',
     ''- Large file processing\<newline>'']"

definition explainConfigError :: "FailureInfo \<Rightarrow> string" where
  "explainConfigError info = concat [
     CROSS_MARK @ '' WHAT HAPPENED:\<newline>'',
     ''There's a problem with your container configuration.\<newline>\<newline>'',
     THINKING_FACE @ '' WHAT THIS MEANS:\<newline>'',
     ''Kubernetes found an error in your pod/container configuration\<newline>'',
     ''before it could even start the container.\<newline>\<newline>'',
     WRENCH @ '' HOW TO FIX:\<newline>'',
     ''1. Verify all ConfigMaps and Secrets exist\<newline>'',
     ''2. Check volume mount paths are correct\<newline>'',
     ''3. Ensure environment variables reference valid resources\<newline>'',
     ''4. Validate YAML syntax\<newline>\<newline>'',
     BUG @ '' DEBUG COMMANDS:\<newline>'',
     ''-------------------\<newline>\<newline>'',
     ''# 1. Get detailed error description\<newline>'',
     ''kubectl describe pod '' @ PodName info @ '' -n '' @ Namespace info @ ''\<newline>\<newline>'',
     ''# 2. Check if referenced ConfigMaps exist\<newline>'',
     ''kubectl get configmaps -n '' @ Namespace info @ ''\<newline>\<newline>'',
     ''# 3. Check if referenced Secrets exist\<newline>'',
     ''kubectl get secrets -n '' @ Namespace info @ ''\<newline>\<newline>'',
     ''# 4. View pod YAML to find configuration issues\<newline>'',
     ''kubectl get pod '' @ PodName info @ '' -n '' @ Namespace info @ '' -o yaml\<newline>\<newline>'',
     ''# 5. Check volume mounts\<newline>'',
     ''kubectl get pod '' @ PodName info @ '' -n '' @ Namespace info @ '' -o jsonpath='{.spec.volumes}'\<newline>\<newline>'',
     BAR_CHART @ '' COMMON CAUSES:\<newline>'',
     ''- Missing ConfigMap or Secret\<newline>'',
     ''- Wrong ConfigMap/Secret key name\<newline>'',
     ''- Invalid volume mount path\<newline>'',
     ''- Incorrect environment variable reference\<newline>'']"

definition explainRunContainerError :: "FailureInfo \<Rightarrow> string" where
  "explainRunContainerError info = concat [
     CROSS_MARK @ '' WHAT HAPPENED:\<newline>'',
     ''Kubernetes couldn't start your container.\<newline>\<newline>'',
     BUG @ '' DEBUG COMMANDS:\<newline>'',
     ''-------------------\<newline>\<newline>'',
     ''kubectl describe pod '' @ PodName info @ '' -n '' @ Namespace info @ ''\<newline>\<newline>'',
     ''kubectl get events -n '' @ Namespace info @ '' --field-selector involvedObject.name='' @ PodName info @ ''\<newline>\<newline>'']"

definition explainInvalidImageName :: "FailureInfo \<Rightarrow> string" where
  "explainInvalidImageName info = concat [
     CROSS_MARK @ '' WHAT HAPPENED:\<newline>'',
     ''The container image name is invalid or malformed.\<newline>\<newline>'',
     BUG @ '' DEBUG COMMANDS:\<newline>'',
     ''-------------------\<newline>\<newline>'',
     ''# Check the image name\<newline>'',
     ''kubectl get pod '' @ PodName info @ '' -n '' @ Namespace info @ '' -o jsonpath='{.spec.containers[*].image}'\<newline>\<newline>'']"

definition explainGeneric :: "FailureInfo \<Rightarrow> string" where
  "explainGeneric info = concat [
     CROSS_MARK @ '' WHAT HAPPENED:\<newline>'' @ Reason info @ ''\<newline>\<newline>'',
     (if Message info \<noteq> '''' then concat [
         MEMO @ '' ERROR MESSAGE:\<newline>'' @ Message info @ ''\<newline>\<newline>'']
      else []),
     BUG @ '' DEBUG COMMANDS:\<newline>'',
     ''-------------------\<newline>\<newline>'',
     ''# 1. Get detailed pod information\<newline>'',
     ''kubectl describe pod '' @ PodName info @ '' -n '' @ Namespace info @ ''\<newline>\<newline>'',
     ''# 2. View logs\<newline>'',
     ''kubectl logs '' @ PodName info @ '' -n '' @ Namespace info @ ''\<newline>\<newline>'',
     ''# 3. View previous logs (if restarted)\<newline>'',
     ''kubectl logs '' @ PodName info @ '' -n '' @ Namespace info @ '' --previous\<newline>\<newline>'',
     ''# 4. Check events\<newline>'',
     ''kubectl get events -n '' @ Namespace info @ '' --field-selector involvedObject.name='' @ PodName info @ '' --sort-by='.lastTimestamp'\<newline>\<newline>'']"

text \<open>
  Explain generates a human-friendly explanation with debug commands: four header lines,
  then the template that the switch on the reason selects.
\<close>

definition Explain :: "FailureInfo \<Rightarrow> string" where
  "Explain info = concat [
     POLICE_LIGHT @ '' PROBLEM DETECTED\<newline>'',
     ''=====================================\<newline>'',
     ''Pod: '' @ Namespace info @ ''/'' @ PodName info @ ''\<newline>'',
     ''Container: '' @ ContainerName info @ ''\<newline>\<newline>'',
     (if Reason info = ''CrashLoopBackOff'' then explainCrashLoopBackOff info
      else if Reason info = ''ImagePullBackOff'' \<or> Reason info = ''ErrImagePull''
        then explainImagePullError info
      else if Reason info = ''OOMKilled'' then explainOOMKilled info
      else if Reason info = ''CreateContainerConfigError'' then explainConfigError info
      else if Reason info = ''RunContainerError'' then explainRunContainerError info
      else if Reason info = ''InvalidImageName'' then explainInvalidImageName info
      else explainGeneric info)]"

section \<open>The cluster as the detector reads it\<close>

text \<open>
  The types of the Kubernetes API that the detector reads, with the fields of a pod and of
  a container status that matter here. A pointer field that may be nil is an option. Field
  names that several types share carry the type as a prefix: \<open>waiting_Reason\<close> is the
  \<^verbatim>\<open>Reason\<close> of a \<^verbatim>\<open>ContainerStateWaiting\<close>, \<open>status_Name\<close> the \<^verbatim>\<open>Name\<close> of a
  \<^verbatim>\<open>ContainerStatus\<close>, \<open>pod_Name\<close> and \<open>pod_Namespace\<close> those of the pod, and
  \<open>ContainerStatuses\<close> is \<^verbatim>\<open>pod.Status.ContainerStatuses\<close>. The detector reads the
  fields \<open>Waiting\<close> and \<open>Terminated\<close> of \<open>State\<close> and never \<open>Running\<close> or
  \<open>LastTerminationState\<close>.
\<close>

record ContainerStateWaiting =
  waiting_Reason :: string
  waiting_Message :: string

record ContainerStateTerminated =
  terminated_ExitCode :: int32
  terminated_Reason :: string
  terminated_Message :: string

record ContainerState =
  Waiting :: "ContainerStateWaiting option"
  Running :: "unit option"
  Terminated :: "ContainerStateTerminated option"

record ContainerStatus =
  status_Name :: string
  State :: ContainerState
  LastTerminationState :: ContainerState

record Pod =
  pod_Namespace :: string
  pod_Name :: string
  ContainerStatuses :: "ContainerStatus list"

record ListOptions =
  LabelSelector :: string
  FieldSelector :: string

record PodLogOptions =
  Container :: string
  TailLines :: "64 word option"

datatype error = Error string

text \<open>
  The two calls the detector makes through its clientset. The cluster is outside the
  program: it is a state \<open>'w\<close> that every call may read and change, and a call answers with
  an error or a value.
\<close>

record 'w Clientset =
  Pods_List :: "'w \<Rightarrow> string \<Rightarrow> ListOptions \<Rightarrow> (error + Pod list) \<times> 'w"
  Pods_GetLogs :: "'w \<Rightarrow> string \<Rightarrow> string \<Rightarrow> PodLogOptions \<Rightarrow> (error + string) \<times> 'w"

section \<open>The detector (pkg/detector/detector.go)\<close>

record Options =
  opts_PodName :: string
  opts_LabelSelector :: string

text \<open>
  The detector with the world it runs in. \<open>seen\<close> and \<open>options\<close> are the fields of the Go
  struct; \<open>cluster\<close> is the cluster behind its clientset; \<open>stdout\<close> is what the process has
  printed. Two history fields record the run: \<open>explained\<close> lists the calls of \<open>Explain\<close>,
  each with the status key under which it was made, and \<open>polled\<close> lists the pod lists that
  the polls returned.
\<close>

record 'w PodDetector =
  cluster :: 'w
  seen :: "string \<rightharpoonup> bool"
  options :: Options
  stdout :: string
  explained :: "(string \<times> FailureInfo) list"
  polled :: "Pod list list"

definition New :: "'w \<Rightarrow> Options \<Rightarrow> 'w PodDetector" where
  "New clientset opts =
     \<lparr>cluster = clientset, seen = Map.empty, options = opts,
      stdout = '''', explained = [], polled = []\<rparr>"

text \<open>Reading a Go \<^verbatim>\<open>map[string]bool\<close>: a missing key reads as false.\<close>

definition seen_at :: "'w PodDetector \<Rightarrow> string \<Rightarrow> bool" where
  "seen_at d statusKey = (case seen d statusKey of None \<Rightarrow> False | Some b \<Rightarrow> b)"

fun isFailureReason_loop :: "string \<Rightarrow> string list \<Rightarrow> bool" where
  "isFailureReason_loop reason [] = False"
| "isFailureReason_loop reason (fr # frs) =
     (if reason = fr then True else isFailureReason_loop reason frs)"

text \<open>The method reads nothing of its receiver, which is left out.\<close>

definition isFailureReason :: "string \<Rightarrow> bool" where
  "isFailureReason reason =
     (let failureReasons =
        [''CrashLoopBackOff'',
         ''ImagePullBackOff'',
         ''ErrImagePull'',
         ''CreateContainerConfigError'',
         ''InvalidImageName'',
         ''RunContainerError'']
      in isFailureReason_loop reason failureReasons)"

definition getLastLog ::
  "'w Clientset \<Rightarrow> 'w PodDetector \<Rightarrow> string \<Rightarrow> string \<Rightarrow> string \<Rightarrow> string \<times> 'w PodDetector" where
  "getLastLog api d namespace podName containerName =
     (let tailLines = 10;
          logOptions = \<lparr>Container = containerName, TailLines = Some tailLines\<rparr>;
          (r, w) = Pods_GetLogs api (cluster d) namespace podName logOptions;
          d = d\<lparr>cluster := w\<rparr>
      in case r of
           Inl err \<Rightarrow> ('''', d)
         | Inr logs \<Rightarrow> (logs, d))"

definition gatherFailureInfo ::
  "'w Clientset \<Rightarrow> 'w PodDetector \<Rightarrow> Pod \<Rightarrow> ContainerStatus \<Rightarrow> ContainerStateWaiting
     \<Rightarrow> FailureInfo \<times> 'w PodDetector" where
  "gatherFailureInfo api d pod status waiting =
     (let (lastLog, d) = getLastLog api d (pod_Namespace pod) (pod_Name pod) (status_Name status)
      in (\<lparr>PodName = pod_Name pod,
           Namespace = pod_Namespace pod,
           ContainerName = status_Name status,
           Reason = waiting_Reason waiting,
           Message = waiting_Message waiting,
           ExitCode = 0,
           LastLog = lastLog\<rparr>, d))"

definition gatherTerminationInfo ::
  "'w Clientset \<Rightarrow> 'w PodDetector \<Rightarrow> Pod \<Rightarrow> ContainerStatus \<Rightarrow> ContainerStateTerminated
     \<Rightarrow> FailureInfo \<times> 'w PodDetector" where
  "gatherTerminationInfo api d pod status terminated =
     (let reason = terminated_Reason terminated;
          reason = (if reason = '''' then ''CrashLoopBackOff'' else reason);
          (lastLog, d) = getLastLog api d (pod_Namespace pod) (pod_Name pod) (status_Name status)
      in (\<lparr>PodName = pod_Name pod,
           Namespace = pod_Namespace pod,
           ContainerName = status_Name status,
           Reason = reason,
           Message = terminated_Message terminated,
           ExitCode = terminated_ExitCode terminated,
           LastLog = lastLog\<rparr>, d))"

text \<open>
  The three keys that \<open>checkPod\<close> formats, with \<^verbatim>\<open>"%s/%s"\<close>, \<^verbatim>\<open>"%s-%s-%s"\<close> and
  \<^verbatim>\<open>"%s-%s-terminated-%d"\<close>.
\<close>

definition podKey_of :: "Pod \<Rightarrow> string" where
  "podKey_of pod = pod_Namespace pod @ ''/'' @ pod_Name pod"

definition waitingKey :: "string \<Rightarrow> string \<Rightarrow> string \<Rightarrow> string" where
  "waitingKey podKey name reason = podKey @ ''-'' @ name @ ''-'' @ reason"

definition terminatedKey :: "string \<Rightarrow> string \<Rightarrow> int32 \<Rightarrow> string" where
  "terminatedKey podKey name exitCode = podKey @ ''-'' @ name @ ''-terminated-'' @ fmt_d exitCode"

abbreviation separator :: string where
  "separator \<equiv> ''=====================================\<newline>''"

text \<open>
  The body of the loop of \<open>checkPod\<close> over the container statuses has two blocks, run one
  after the other: the check of the waiting state and the check of the terminated state.
  \<^verbatim>\<open>fmt.Println\<close> adds a newline to what it prints.
\<close>

definition checkWaiting ::
  "'w Clientset \<Rightarrow> Pod \<Rightarrow> string \<Rightarrow> 'w PodDetector \<Rightarrow> ContainerStatus \<Rightarrow> 'w PodDetector" where
  "checkWaiting api pod podKey d containerStatus =
     (case Waiting (State containerStatus) of
        None \<Rightarrow> d
      | Some waiting \<Rightarrow>
          if isFailureReason (waiting_Reason waiting) then
            let statusKey =
                  waitingKey podKey (status_Name containerStatus) (waiting_Reason waiting)
            in if \<not> seen_at d statusKey then
                 let (info, d) = gatherFailureInfo api d pod containerStatus waiting;
                     explanation = Explain info;
                     d = d\<lparr>explained := explained d @ [(statusKey, info)]\<rparr>;
                     d = d\<lparr>stdout := stdout d @ explanation @ ''\<newline>''\<rparr>;
                     d = d\<lparr>stdout := stdout d @ separator @ ''\<newline>''\<rparr>
                 in d\<lparr>seen := (seen d)(statusKey \<mapsto> True)\<rparr>
               else d
          else d)"

definition checkTerminated ::
  "'w Clientset \<Rightarrow> Pod \<Rightarrow> string \<Rightarrow> 'w PodDetector \<Rightarrow> ContainerStatus \<Rightarrow> 'w PodDetector" where
  "checkTerminated api pod podKey d containerStatus =
     (case Terminated (State containerStatus) of
        None \<Rightarrow> d
      | Some terminated \<Rightarrow>
          if terminated_ExitCode terminated \<noteq> 0 then
            let statusKey =
                  terminatedKey podKey (status_Name containerStatus)
                    (terminated_ExitCode terminated)
            in if \<not> seen_at d statusKey then
                 let (info, d) = gatherTerminationInfo api d pod containerStatus terminated;
                     explanation = Explain info;
                     d = d\<lparr>explained := explained d @ [(statusKey, info)]\<rparr>;
                     d = d\<lparr>stdout := stdout d @ explanation @ ''\<newline>''\<rparr>;
                     d = d\<lparr>stdout := stdout d @ separator @ ''\<newline>''\<rparr>
                 in d\<lparr>seen := (seen d)(statusKey \<mapsto> True)\<rparr>
               else d
          else d)"

definition checkContainerStatus ::
  "'w Clientset \<Rightarrow> Pod \<Rightarrow> string \<Rightarrow> 'w PodDetector \<Rightarrow> ContainerStatus \<Rightarrow> 'w PodDetector" where
  "checkContainerStatus api pod podKey d containerStatus =
     (let d = checkWaiting api pod podKey d containerStatus
      in checkTerminated api pod podKey d containerStatus)"

definition checkPod :: "'w Clientset \<Rightarrow> 'w PodDetector \<Rightarrow> Pod \<Rightarrow> 'w PodDetector" where
  "checkPod api d pod =
     (let podKey = podKey_of pod
      in foldl (checkContainerStatus api pod podKey) d (ContainerStatuses pod))"

text \<open>
  WatchPods monitors pods for failures. Its loop ends only when listing the pods fails, so
  the model runs it for a given number of polls: the result is the error returned, or
  \<open>None\<close> when the loop is still running after that many polls, with the state reached. The
  sleep between two polls changes nothing in the state.
\<close>

fun WatchPods_loop ::
  "'w Clientset \<Rightarrow> nat \<Rightarrow> 'w PodDetector \<Rightarrow> string \<Rightarrow> error option \<times> 'w PodDetector" where
  "WatchPods_loop api 0 d namespace = (None, d)"
| "WatchPods_loop api (Suc n) d namespace =
     (let listOptions = \<lparr>LabelSelector = '''', FieldSelector = ''''\<rparr>;
          listOptions =
            (if opts_LabelSelector (options d) \<noteq> ''''
             then listOptions\<lparr>LabelSelector := opts_LabelSelector (options d)\<rparr>
             else listOptions);
          listOptions =
            (if opts_PodName (options d) \<noteq> ''''
             then listOptions\<lparr>FieldSelector := ''metadata.name='' @ opts_PodName (options d)\<rparr>
             else listOptions);
          d = d\<lparr>stdout := stdout d @ ''[DEBUG] Querying namespace='' @ [CHR 0x27] @ namespace
                  @ [CHR 0x27] @ ''\<newline>''\<rparr>;
          (r, w) = Pods_List api (cluster d) namespace listOptions;
          d = d\<lparr>cluster := w\<rparr>
      in case r of
           Inl (Error msg) \<Rightarrow> (Some (Error (''failed to list pods: '' @ msg)), d)
         | Inr pods \<Rightarrow>
             WatchPods_loop api n (foldl (checkPod api) (d\<lparr>polled := polled d @ [pods]\<rparr>) pods)
               namespace)"

definition WatchPods ::
  "'w Clientset \<Rightarrow> nat \<Rightarrow> 'w PodDetector \<Rightarrow> string \<Rightarrow> error option \<times> 'w PodDetector" where
  "WatchPods api n d namespace =
     WatchPods_loop api n
       (d\<lparr>stdout := stdout d @ MAGNIFIER @ '' Watching pods in namespace: '' @ namespace
            @ ''\<newline>\<newline>''\<rparr>)
       namespace"

section \<open>Notions used to state the properties\<close>

text \<open>
  The status keys that \<open>checkPod\<close> forms for a container status, a pod and a list of pods:
  the conditions a poll observes.
\<close>

definition statusKeys :: "Pod \<Rightarrow> ContainerStatus \<Rightarrow> string list" where
  "statusKeys pod containerStatus =
     (case Waiting (State containerStatus) of
        None \<Rightarrow> []
      | Some waiting \<Rightarrow>
          if isFailureReason (waiting_Reason waiting)
          then [waitingKey (podKey_of pod) (status_Name containerStatus) (waiting_Reason waiting)]
          else [])
     @ (case Terminated (State containerStatus) of
          None \<Rightarrow> []
        | Some terminated \<Rightarrow>
            if terminated_ExitCode terminated \<noteq> 0
            then [terminatedKey (podKey_of pod) (status_Name containerStatus)
                    (terminated_ExitCode terminated)]
            else [])"

definition observed :: "Pod list \<Rightarrow> string set" where
  "observed pods = (\<Union>pod \<in> set pods. \<Union>cs \<in> set (ContainerStatuses pod). set (statusKeys pod cs))"

text \<open>
  Reading a decimal numeral back: the value of a string of digits with an optional leading
  minus sign. It says which number the text printed for an exit code denotes.
\<close>

fun decimal_nat :: "nat \<Rightarrow> string \<Rightarrow> nat" where
  "decimal_nat acc [] = acc"
| "decimal_nat acc (c # cs) = decimal_nat (10 * acc + (of_char c - 48)) cs"

definition decimal_value :: "string \<Rightarrow> int" where
  "decimal_value s =
     (case s of
        [] \<Rightarrow> 0
      | c # cs \<Rightarrow> if c = CHR ''-'' then - int (decimal_nat 0 cs) else int (decimal_nat 0 s))"

text \<open>The four lines that \<open>Explain\<close> writes before the template of the reason.\<close>

definition header :: "FailureInfo \<Rightarrow> string" where
  "header info = concat [
     POLICE_LIGHT @ '' PROBLEM DETECTED\<newline>'',
     ''=====================================\<newline>'',
     ''Pod: '' @ Namespace info @ ''/'' @ PodName info @ ''\<newline>'',
     ''Container: '' @ ContainerName info @ ''\<newline>\<newline>'']"

text \<open>What the detector prints for one explained record: the explanation and the separator.\<close>

definition block :: "string \<times> FailureInfo \<Rightarrow> string" where
  "block e = Explain (snd e) @ ''\<newline>'' @ separator @ ''\<newline>''"

text \<open>
  How a run moves the detector from \<open>d\<close> to \<open>d'\<close>: the calls of \<open>Explain\<close> made on the way
  are appended to the history, they are made under status keys that were not seen in \<open>d\<close>,
  each key once, and the keys seen in \<open>d'\<close> are those seen in \<open>d\<close> and those just explained.
\<close>

definition advance :: "'w PodDetector \<Rightarrow> 'w PodDetector \<Rightarrow> bool" where
  "advance d d' \<longleftrightarrow>
     (\<exists>new. explained d' = explained d @ new
        \<and> distinct (map fst new)
        \<and> (\<forall>k. seen_at d' k = (seen_at d k \<or> k \<in> fst ` set new))
        \<and> (\<forall>k. k \<in> fst ` set new \<longrightarrow> \<not> seen_at d k))"

text \<open>
  \<open>adds P d d'\<close>: the history of \<open>d'\<close> is that of \<open>d\<close> followed by calls of \<open>Explain\<close> that
  all satisfy \<open>P\<close>.
\<close>

definition adds ::
  "(string \<times> FailureInfo \<Rightarrow> bool) \<Rightarrow> 'w PodDetector \<Rightarrow> 'w PodDetector \<Rightarrow> bool" where
  "adds P d d' \<longleftrightarrow> (\<exists>new. explained d' = explained d @ new \<and> list_all P new)"

text \<open>
  \<open>prints d d'\<close>: between \<open>d\<close> and \<open>d'\<close> the output grows by the blocks of the records added to
  the history, in their order.
\<close>

definition prints :: "'w PodDetector \<Rightarrow> 'w PodDetector \<Rightarrow> bool" where
  "prints d d' \<longleftrightarrow>
     (\<exists>new. explained d' = explained d @ new \<and> stdout d' = stdout d @ concat (map block new))"

text \<open>
  Where a failure record comes from: \<open>from_waiting\<close> holds of the records that
  \<open>gatherFailureInfo\<close> builds for a container status whose waiting reason is a failure
  reason, \<open>from_terminated\<close> of those that \<open>gatherTerminationInfo\<close> builds for one that
  terminated with a non-zero exit code. The log tail is left open.
\<close>

definition from_waiting :: "Pod \<Rightarrow> ContainerStatus \<Rightarrow> FailureInfo \<Rightarrow> bool" where
  "from_waiting pod cs info \<longleftrightarrow>
     (case Waiting (State cs) of
        None \<Rightarrow> False
      | Some waiting \<Rightarrow>
          isFailureReason (waiting_Reason waiting)
          \<and> PodName info = pod_Name pod \<and> Namespace info = pod_Namespace pod
          \<and> ContainerName info = status_Name cs
          \<and> Reason info = waiting_Reason waiting \<and> Message info = waiting_Message waiting
          \<and> ExitCode info = 0)"

definition from_terminated :: "Pod \<Rightarrow> ContainerStatus \<Rightarrow> FailureInfo \<Rightarrow> bool" where
  "from_terminated pod cs info \<longleftrightarrow>
     (case Terminated (State cs) of
        None \<Rightarrow> False
      | Some terminated \<Rightarrow>
          terminated_ExitCode terminated \<noteq> 0
          \<and> PodName info = pod_Name pod \<and> Namespace info = pod_Namespace pod
          \<and> ContainerName info = status_Name cs
          \<and> Reason info =
              (if terminated_Reason terminated = '''' then ''CrashLoopBackOff''
               else terminated_Reason terminated)
          \<and> Message info = terminated_Message terminated
          \<and> ExitCode info = terminated_ExitCode terminated)"

section \<open>Example clusters and records\<close>

text \<open>
  A small cluster to run the detector on: the pod \<open>web\<close> of namespace \<open>prod\<close> has one
  container, \<open>app\<close>, waiting in CrashLoopBackOff after a last termination with exit code
  137. Every poll lists this pod and every log request answers \<open>fatal: OOM\<close>.
\<close>

definition demo_status :: ContainerStatus where
  "demo_status =
     \<lparr>status_Name = ''app'',
      State = \<lparr>Waiting = Some \<lparr>waiting_Reason = ''CrashLoopBackOff'',
                                waiting_Message = ''back-off restarting failed container''\<rparr>,
               Running = None, Terminated = None\<rparr>,
      LastTerminationState =
        \<lparr>Waiting = None, Running = None,
         Terminated = Some \<lparr>terminated_ExitCode = 137, terminated_Reason = ''Error'',
                             terminated_Message = ''''\<rparr>\<rparr>\<rparr>"

definition demo_pod :: Pod where
  "demo_pod = \<lparr>pod_Namespace = ''prod'', pod_Name = ''web'', ContainerStatuses = [demo_status]\<rparr>"

definition demo_api :: "unit Clientset" where
  "demo_api =
     \<lparr>Pods_List = (\<lambda>w namespace listOptions. (Inr [demo_pod], w)),
      Pods_GetLogs = (\<lambda>w namespace podName logOptions. (Inr ''fatal: OOM'', w))\<rparr>"

definition demo_opts :: Options where
  "demo_opts = \<lparr>opts_PodName = '''', opts_LabelSelector = ''''\<rparr>"

definition demo_run :: "unit PodDetector" where
  "demo_run = snd (WatchPods demo_api 2 (New () demo_opts) ''prod'')"

text \<open>A cluster that lists the demonstration pod and refuses every log request.\<close>

definition down_api :: "unit Clientset" where
  "down_api =
     \<lparr>Pods_List = (\<lambda>w namespace listOptions. (Inr [demo_pod], w)),
      Pods_GetLogs = (\<lambda>w namespace podName logOptions. (Inl (Error ''logs unavailable''), w))\<rparr>"

text \<open>A pod whose containers are healthy: one has exited with code 0, one is running.\<close>

definition exited_ok :: ContainerStatus where
  "exited_ok =
     \<lparr>status_Name = ''init'',
      State = \<lparr>Waiting = None, Running = None,
               Terminated = Some \<lparr>terminated_ExitCode = 0, terminated_Reason = ''Completed'',
                                   terminated_Message = ''''\<rparr>\<rparr>,
      LastTerminationState = \<lparr>Waiting = None, Running = None, Terminated = None\<rparr>\<rparr>"

definition running_ok :: ContainerStatus where
  "running_ok =
     \<lparr>status_Name = ''app'',
      State = \<lparr>Waiting = None, Running = Some (), Terminated = None\<rparr>,
      LastTerminationState = \<lparr>Waiting = None, Running = None, Terminated = None\<rparr>\<rparr>"

definition job_pod :: Pod where
  "job_pod =
     \<lparr>pod_Namespace = ''prod'', pod_Name = ''job'', ContainerStatuses = [exited_ok, running_ok]\<rparr>"

text \<open>
  A pod whose container exited with code 1 and for which the cluster gives no reason.
\<close>

definition failed_state :: ContainerStateTerminated where
  "failed_state =
     \<lparr>terminated_ExitCode = 1, terminated_Reason = '''', terminated_Message = ''''\<rparr>"

definition failed_status :: ContainerStatus where
  "failed_status =
     \<lparr>status_Name = ''worker'',
      State = \<lparr>Waiting = None, Running = None, Terminated = Some failed_state\<rparr>,
      LastTerminationState = \<lparr>Waiting = None, Running = None, Terminated = None\<rparr>\<rparr>"

definition failed_pod :: Pod where
  "failed_pod =
     \<lparr>pod_Namespace = ''prod'', pod_Name = ''batch'', ContainerStatuses = [failed_status]\<rparr>"

text \<open>
  Two container statuses with the reason OOMKilled: one reports it in the waiting state,
  the other terminated with it and exit code 137, in the pod \<open>cache\<close>.
\<close>

definition oom_waiting_status :: ContainerStatus where
  "oom_waiting_status =
     \<lparr>status_Name = ''redis'',
      State = \<lparr>Waiting = Some \<lparr>waiting_Reason = ''OOMKilled'', waiting_Message = ''''\<rparr>,
               Running = None, Terminated = None\<rparr>,
      LastTerminationState = \<lparr>Waiting = None, Running = None, Terminated = None\<rparr>\<rparr>"

definition oom_state :: ContainerStateTerminated where
  "oom_state =
     \<lparr>terminated_ExitCode = 137, terminated_Reason = ''OOMKilled'', terminated_Message = ''''\<rparr>"

definition oom_status :: ContainerStatus where
  "oom_status =
     \<lparr>status_Name = ''redis'',
      State = \<lparr>Waiting = None, Running = None, Terminated = Some oom_state\<rparr>,
      LastTerminationState = \<lparr>Waiting = None, Running = None, Terminated = None\<rparr>\<rparr>"

definition oom_pod :: Pod where
  "oom_pod = \<lparr>pod_Namespace = ''prod'', pod_Name = ''cache'', ContainerStatuses = [oom_status]\<rparr>"

text \<open>
  Two pods of one namespace, each with a container waiting in CrashLoopBackOff: the pod
  \<open>web-1\<close> with the container \<open>app\<close>, and the pod \<open>web\<close> with the container \<open>1-app\<close>.
\<close>

definition crash_waiting :: ContainerState where
  "crash_waiting =
     \<lparr>Waiting = Some \<lparr>waiting_Reason = ''CrashLoopBackOff'', waiting_Message = ''''\<rparr>,
      Running = None, Terminated = None\<rparr>"

definition web1_pod :: Pod where
  "web1_pod =
     \<lparr>pod_Namespace = ''prod'', pod_Name = ''web-1'',
      ContainerStatuses =
        [\<lparr>status_Name = ''app'', State = crash_waiting,
          LastTerminationState = \<lparr>Waiting = None, Running = None, Terminated = None\<rparr>\<rparr>]\<rparr>"

definition web_pod :: Pod where
  "web_pod =
     \<lparr>pod_Namespace = ''prod'', pod_Name = ''web'',
      ContainerStatuses =
        [\<lparr>status_Name = ''1-app'', State = crash_waiting,
          LastTerminationState = \<lparr>Waiting = None, Running = None, Terminated = None\<rparr>\<rparr>]\<rparr>"

text \<open>
  Two failure records: a crash loop with a log tail, and a container killed for running out
  of memory, with the log it wrote before.
\<close>

definition crash_info :: FailureInfo where
  "crash_info =
     \<lparr>PodName = ''web'', Namespace = ''prod'', ContainerName = ''app'',
      Reason = ''CrashLoopBackOff'', Message = '''', ExitCode = 137, LastLog = ''fatal: OOM''\<rparr>"

definition oom_info :: FailureInfo where
  "oom_info =
     \<lparr>PodName = ''web'', Namespace = ''prod'', ContainerName = ''app'',
      Reason = ''OOMKilled'', Message = '''', ExitCode = 137,
      LastLog = ''java.lang.OutOfMemoryError: Java heap space''\<rparr>"

section \<open>Decimal formatting\<close>

lemma decimal_nat_append: "decimal_nat acc (xs @ ys) = decimal_nat (decimal_nat acc xs) ys"
  by (induction xs arbitrary: acc) simp_all

lemma digit_value: "d < 10 \<Longrightarrow> of_char (''0123456789'' ! d) = 48 + d"
proof -
  assume "d < 10"
  then have "d \<in> {0, 1, 2, 3, 4, 5, 6, 7, 8, 9}" by auto
  then show ?thesis by auto
qed

lemma digit_not_minus: "d < 10 \<Longrightarrow> ''0123456789'' ! d \<noteq> CHR ''-''"
proof -
  assume "d < 10"
  then have "d \<in> {0, 1, 2, 3, 4, 5, 6, 7, 8, 9}" by auto
  then show ?thesis by auto
qed

lemma decimal_nat_digits: "decimal_nat 0 (digits n) = n"
proof (induction n rule: digits.induct)
  case (1 n)
  show ?case
  proof (cases "n < 10")
    case True
    then show ?thesis by (subst digits.simps) (simp add: digit_value)
  next
    case False
    then have "decimal_nat 0 (digits (n div 10)) = n div 10" using 1 by simp
    with False show ?thesis
      by (subst digits.simps) (simp add: decimal_nat_append digit_value)
  qed
qed

lemma digits_nonempty: "digits n \<noteq> []"
  by (subst digits.simps) simp

lemma hd_digits: "hd (digits n) \<noteq> CHR ''-''"
proof (induction n rule: digits.induct)
  case (1 n)
  show ?case
  proof (cases "n < 10")
    case True
    then show ?thesis by (subst digits.simps) (simp add: digit_not_minus)
  next
    case False
    with 1 show ?thesis
      by (subst digits.simps) (simp add: digits_nonempty)
  qed
qed

lemma decimal_value_fmt_d: "decimal_value (fmt_d code) = sint code"
proof (cases "sint code < 0")
  case True
  then show ?thesis by (simp add: fmt_d_def decimal_value_def decimal_nat_digits)
next
  case False
  obtain c cs where eq: "digits (nat (sint code)) = c # cs"
    using digits_nonempty by (cases "digits (nat (sint code))") auto
  have "c \<noteq> CHR ''-''" using hd_digits [of "nat (sint code)"] eq by simp
  with False eq show ?thesis
    using decimal_nat_digits [of "nat (sint code)"]
    by (simp add: fmt_d_def decimal_value_def)
qed

section \<open>What a scan changes\<close>

lemma getLastLog_cluster: "\<exists>w. snd (getLastLog api d ns p c) = d\<lparr>cluster := w\<rparr>"
  by (auto simp add: getLastLog_def Let_def split: prod.splits sum.splits)

lemma gatherFailureInfo_cluster:
  "\<exists>w. snd (gatherFailureInfo api d pod status waiting) = d\<lparr>cluster := w\<rparr>"
  using getLastLog_cluster [of api d "pod_Namespace pod" "pod_Name pod" "status_Name status"]
  by (auto simp add: gatherFailureInfo_def split: prod.splits)

lemma gatherTerminationInfo_cluster:
  "\<exists>w. snd (gatherTerminationInfo api d pod status terminated) = d\<lparr>cluster := w\<rparr>"
  using getLastLog_cluster [of api d "pod_Namespace pod" "pod_Name pod" "status_Name status"]
  by (auto simp add: gatherTerminationInfo_def Let_def split: prod.splits)

lemma advance_refl: "advance d d"
  unfolding advance_def by (rule exI [of _ "[]"]) simp

lemma advance_trans:
  assumes "advance d d'" and "advance d' d''"
  shows "advance d d''"
proof -
  from assms(1) obtain n1 where
    1: "explained d' = explained d @ n1" "distinct (map fst n1)"
       "\<forall>k. seen_at d' k = (seen_at d k \<or> k \<in> fst ` set n1)"
       "\<forall>k. k \<in> fst ` set n1 \<longrightarrow> \<not> seen_at d k"
    unfolding advance_def by blast
  from assms(2) obtain n2 where
    2: "explained d'' = explained d' @ n2" "distinct (map fst n2)"
       "\<forall>k. seen_at d'' k = (seen_at d' k \<or> k \<in> fst ` set n2)"
       "\<forall>k. k \<in> fst ` set n2 \<longrightarrow> \<not> seen_at d' k"
    unfolding advance_def by blast
  have "explained d'' = explained d @ (n1 @ n2)" using 1(1) 2(1) by simp
  moreover have "distinct (map fst (n1 @ n2))"
    using 1(2) 2(2) 1(3) 2(4) by auto
  moreover have "\<forall>k. seen_at d'' k = (seen_at d k \<or> k \<in> fst ` set (n1 @ n2))"
    using 1(3) 2(3) by auto
  moreover have "\<forall>k. k \<in> fst ` set (n1 @ n2) \<longrightarrow> \<not> seen_at d k"
    using 1(3) 1(4) 2(4) by auto
  ultimately show ?thesis unfolding advance_def by blast
qed

lemma advance_report:
  assumes "\<not> seen_at d key"
  shows "advance d (d\<lparr>cluster := w, explained := explained d @ [(key, info)], stdout := out,
                      seen := (seen d)(key \<mapsto> True)\<rparr>)"
  unfolding advance_def
  by (rule exI [of _ "[(key, info)]"]) (use assms in \<open>auto simp add: seen_at_def\<close>)

lemma advance_fields:
  assumes "explained a = explained a'" and "seen a = seen a'"
    and "explained b = explained b'" and "seen b = seen b'"
  shows "advance a b = advance a' b'"
  using assms by (simp add: advance_def seen_at_def)

lemma seen_at_report [simp]:
  "seen_at (d\<lparr>cluster := w, explained := e, stdout := out, seen := (seen d)(key \<mapsto> True)\<rparr>) k
     = (seen_at d k \<or> k = key)"
  by (auto simp add: seen_at_def)

lemma checkWaiting_skip:
  assumes "\<And>waiting. Waiting (State cs) = Some waiting \<Longrightarrow>
      \<not> isFailureReason (waiting_Reason waiting)
      \<or> seen_at d (waitingKey podKey (status_Name cs) (waiting_Reason waiting))"
  shows "checkWaiting api pod podKey d cs = d"
  using assms by (cases "Waiting (State cs)") (auto simp add: checkWaiting_def Let_def)

lemma checkWaiting_report:
  assumes "Waiting (State cs) = Some waiting" and "isFailureReason (waiting_Reason waiting)"
    and "\<not> seen_at d (waitingKey podKey (status_Name cs) (waiting_Reason waiting))"
  shows "\<exists>info w.
        gatherFailureInfo api d pod cs waiting = (info, d\<lparr>cluster := w\<rparr>)
        \<and> checkWaiting api pod podKey d cs =
            d\<lparr>cluster := w,
              explained := explained d
                @ [(waitingKey podKey (status_Name cs) (waiting_Reason waiting), info)],
              stdout := (stdout d @ Explain info @ ''\<newline>'') @ separator @ ''\<newline>'',
              seen := (seen d)(waitingKey podKey (status_Name cs) (waiting_Reason waiting)
                         \<mapsto> True)\<rparr>"
proof -
  let ?key = "waitingKey podKey (status_Name cs) (waiting_Reason waiting)"
  obtain info d1 where g: "gatherFailureInfo api d pod cs waiting = (info, d1)"
    by (cases "gatherFailureInfo api d pod cs waiting")
  with gatherFailureInfo_cluster [of api d pod cs waiting]
  obtain w where d1: "d1 = d\<lparr>cluster := w\<rparr>"
    by auto
  have "checkWaiting api pod podKey d cs =
      d\<lparr>cluster := w, explained := explained d @ [(?key, info)],
        stdout := (stdout d @ Explain info @ ''\<newline>'') @ separator @ ''\<newline>'',
        seen := (seen d)(?key \<mapsto> True)\<rparr>"
    using assms g d1 by (simp add: checkWaiting_def seen_at_def Let_def)
  with g d1 show ?thesis by blast
qed

lemma checkTerminated_skip:
  assumes "\<And>terminated. Terminated (State cs) = Some terminated \<Longrightarrow>
      terminated_ExitCode terminated = 0
      \<or> seen_at d (terminatedKey podKey (status_Name cs) (terminated_ExitCode terminated))"
  shows "checkTerminated api pod podKey d cs = d"
  using assms by (cases "Terminated (State cs)") (auto simp add: checkTerminated_def Let_def)

lemma checkTerminated_report:
  assumes "Terminated (State cs) = Some terminated" and "terminated_ExitCode terminated \<noteq> 0"
    and "\<not> seen_at d (terminatedKey podKey (status_Name cs) (terminated_ExitCode terminated))"
  shows "\<exists>info w.
        gatherTerminationInfo api d pod cs terminated = (info, d\<lparr>cluster := w\<rparr>)
        \<and> checkTerminated api pod podKey d cs =
            d\<lparr>cluster := w,
              explained := explained d
                @ [(terminatedKey podKey (status_Name cs) (terminated_ExitCode terminated), info)],
              stdout := (stdout d @ Explain info @ ''\<newline>'') @ separator @ ''\<newline>'',
              seen := (seen d)(terminatedKey podKey (status_Name cs)
                                 (terminated_ExitCode terminated) \<mapsto> True)\<rparr>"
proof -
  let ?key = "terminatedKey podKey (status_Name cs) (terminated_ExitCode terminated)"
  obtain info d1 where g: "gatherTerminationInfo api d pod cs terminated = (info, d1)"
    by (cases "gatherTerminationInfo api d pod cs terminated")
  with gatherTerminationInfo_cluster [of api d pod cs terminated]
  obtain w where d1: "d1 = d\<lparr>cluster := w\<rparr>"
    by auto
  have "checkTerminated api pod podKey d cs =
      d\<lparr>cluster := w, explained := explained d @ [(?key, info)],
        stdout := (stdout d @ Explain info @ ''\<newline>'') @ separator @ ''\<newline>'',
        seen := (seen d)(?key \<mapsto> True)\<rparr>"
    using assms g d1 by (simp add: checkTerminated_def seen_at_def Let_def)
  with g d1 show ?thesis by blast
qed

lemma advance_checkWaiting: "advance d (checkWaiting api pod podKey d cs)"
proof (cases "\<exists>waiting. Waiting (State cs) = Some waiting
    \<and> isFailureReason (waiting_Reason waiting)
    \<and> \<not> seen_at d (waitingKey podKey (status_Name cs) (waiting_Reason waiting))")
  case True
  then obtain waiting where w: "Waiting (State cs) = Some waiting"
      "isFailureReason (waiting_Reason waiting)"
      "\<not> seen_at d (waitingKey podKey (status_Name cs) (waiting_Reason waiting))"
    by blast
  from checkWaiting_report [OF this, of api pod] advance_report [OF w(3)]
  show ?thesis by auto
next
  case False
  then have "checkWaiting api pod podKey d cs = d" by (intro checkWaiting_skip) blast
  then show ?thesis by (simp add: advance_refl)
qed

lemma advance_checkTerminated: "advance d (checkTerminated api pod podKey d cs)"
proof (cases "\<exists>terminated. Terminated (State cs) = Some terminated
    \<and> terminated_ExitCode terminated \<noteq> 0
    \<and> \<not> seen_at d (terminatedKey podKey (status_Name cs) (terminated_ExitCode terminated))")
  case True
  then obtain terminated where t: "Terminated (State cs) = Some terminated"
      "terminated_ExitCode terminated \<noteq> 0"
      "\<not> seen_at d (terminatedKey podKey (status_Name cs) (terminated_ExitCode terminated))"
    by blast
  from checkTerminated_report [OF this, of api pod] advance_report [OF t(3)]
  show ?thesis by auto
next
  case False
  then have "checkTerminated api pod podKey d cs = d" by (intro checkTerminated_skip) blast
  then show ?thesis by (simp add: advance_refl)
qed

lemma advance_checkContainerStatus: "advance d (checkContainerStatus api pod podKey d cs)"
  unfolding checkContainerStatus_def Let_def
  by (rule advance_trans [OF advance_checkWaiting advance_checkTerminated])

lemma advance_foldl:
  assumes "\<And>d x. advance d (f d x)"
  shows "advance d (foldl f d xs)"
proof (induction xs arbitrary: d)
  case Nil
  show ?case by (simp add: advance_refl)
next
  case (Cons x xs)
  show ?case using advance_trans [OF assms [of d x] Cons [of "f d x"]] by simp
qed

lemma advance_checkPod: "advance d (checkPod api d pod)"
  unfolding checkPod_def Let_def
  by (rule advance_foldl) (rule advance_checkContainerStatus)

lemma advance_scan: "advance d (foldl (checkPod api) d pods)"
  by (rule advance_foldl) (rule advance_checkPod)

lemma checkWaiting_polled_seen:
  "polled (checkWaiting api pod podKey d cs) = polled d
   \<and> (seen_at (checkWaiting api pod podKey d cs) k \<longleftrightarrow>
        seen_at d k
        \<or> k \<in> set (case Waiting (State cs) of
                      None \<Rightarrow> []
                    | Some waiting \<Rightarrow>
                        if isFailureReason (waiting_Reason waiting)
                        then [waitingKey podKey (status_Name cs) (waiting_Reason waiting)]
                        else []))"
proof (cases "\<exists>waiting. Waiting (State cs) = Some waiting
    \<and> isFailureReason (waiting_Reason waiting)
    \<and> \<not> seen_at d (waitingKey podKey (status_Name cs) (waiting_Reason waiting))")
  case True
  then obtain waiting where w: "Waiting (State cs) = Some waiting"
      "isFailureReason (waiting_Reason waiting)"
      "\<not> seen_at d (waitingKey podKey (status_Name cs) (waiting_Reason waiting))"
    by blast
  from checkWaiting_report [OF this, of api pod] w(1,2) show ?thesis by auto
next
  case False
  then have "checkWaiting api pod podKey d cs = d" by (intro checkWaiting_skip) blast
  with False show ?thesis by (cases "Waiting (State cs)") auto
qed

lemma checkTerminated_polled_seen:
  "polled (checkTerminated api pod podKey d cs) = polled d
   \<and> (seen_at (checkTerminated api pod podKey d cs) k \<longleftrightarrow>
        seen_at d k
        \<or> k \<in> set (case Terminated (State cs) of
                      None \<Rightarrow> []
                    | Some terminated \<Rightarrow>
                        if terminated_ExitCode terminated \<noteq> 0
                        then [terminatedKey podKey (status_Name cs)
                                (terminated_ExitCode terminated)]
                        else []))"
proof (cases "\<exists>terminated. Terminated (State cs) = Some terminated
    \<and> terminated_ExitCode terminated \<noteq> 0
    \<and> \<not> seen_at d (terminatedKey podKey (status_Name cs) (terminated_ExitCode terminated))")
  case True
  then obtain terminated where t: "Terminated (State cs) = Some terminated"
      "terminated_ExitCode terminated \<noteq> 0"
      "\<not> seen_at d (terminatedKey podKey (status_Name cs) (terminated_ExitCode terminated))"
    by blast
  from checkTerminated_report [OF this, of api pod] t(1,2) show ?thesis by auto
next
  case False
  then have "checkTerminated api pod podKey d cs = d" by (intro checkTerminated_skip) blast
  with False show ?thesis by (cases "Terminated (State cs)") auto
qed

lemma polled_checkContainerStatus [simp]:
  "polled (checkContainerStatus api pod podKey d cs) = polled d"
  by (simp add: checkContainerStatus_def checkWaiting_polled_seen checkTerminated_polled_seen)

lemma polled_checkPod [simp]: "polled (checkPod api d pod) = polled d"
proof -
  have "polled (foldl (checkContainerStatus api pod k) d css) = polled d" for k css
    by (induction css arbitrary: d) simp_all
  then show ?thesis by (simp add: checkPod_def)
qed

lemma polled_scan [simp]: "polled (foldl (checkPod api) d pods) = polled d"
  by (induction pods arbitrary: d) simp_all

lemma seen_checkContainerStatus:
  "seen_at (checkContainerStatus api pod (podKey_of pod) d cs) k \<longleftrightarrow>
     seen_at d k \<or> k \<in> set (statusKeys pod cs)"
  by (simp add: checkContainerStatus_def checkWaiting_polled_seen checkTerminated_polled_seen
      statusKeys_def)

lemma seen_checkPod:
  "seen_at (checkPod api d pod) k \<longleftrightarrow> seen_at d k \<or> k \<in> observed [pod]"
proof -
  have "seen_at (foldl (checkContainerStatus api pod (podKey_of pod)) d css) k \<longleftrightarrow>
      seen_at d k \<or> (\<exists>cs \<in> set css. k \<in> set (statusKeys pod cs))" for css
    by (induction css arbitrary: d) (auto simp add: seen_checkContainerStatus)
  then show ?thesis by (simp add: checkPod_def observed_def)
qed

lemma observed_Cons: "observed (pod # pods) = observed [pod] \<union> observed pods"
  by (simp add: observed_def)

lemma observed_append: "observed (ps @ qs) = observed ps \<union> observed qs"
  by (simp add: observed_def)

lemma seen_scan:
  "seen_at (foldl (checkPod api) d pods) k \<longleftrightarrow> seen_at d k \<or> k \<in> observed pods"
proof (induction pods arbitrary: d)
  case Nil
  show ?case by (simp add: observed_def)
next
  case (Cons pod pods)
  show ?case using Cons [of "checkPod api d pod"]
    by (simp add: seen_checkPod observed_Cons [of pod pods])
qed

lemma WatchPods_loop_run:
  "WatchPods_loop api n d namespace = (r, d') \<Longrightarrow>
     advance d d'
     \<and> (\<exists>ps. polled d' = polled d @ ps
           \<and> (\<forall>k. seen_at d' k \<longleftrightarrow> seen_at d k \<or> k \<in> observed (concat ps)))"
proof (induction n arbitrary: d)
  case 0
  then show ?case by (auto simp add: advance_refl observed_def)
next
  case (Suc n)
  define listOptions where "listOptions =
     (let lo = \<lparr>LabelSelector = '''', FieldSelector = ''''\<rparr>;
          lo = (if opts_LabelSelector (options d) \<noteq> ''''
                then lo\<lparr>LabelSelector := opts_LabelSelector (options d)\<rparr> else lo)
      in (if opts_PodName (options d) \<noteq> ''''
          then lo\<lparr>FieldSelector := ''metadata.name='' @ opts_PodName (options d)\<rparr> else lo))"
  obtain res w where l: "Pods_List api (cluster d) namespace listOptions = (res, w)"
    by (cases "Pods_List api (cluster d) namespace listOptions")
  define d1 where "d1 = d\<lparr>stdout := stdout d @ ''[DEBUG] Querying namespace='' @ [CHR 0x27]
      @ namespace @ [CHR 0x27] @ ''\<newline>'', cluster := w\<rparr>"
  have same: "explained d1 = explained d" "seen d1 = seen d" "polled d1 = polled d"
    by (simp_all add: d1_def)
  show ?case
  proof (cases res)
    case (Inl err)
    obtain msg where "err = Error msg" by (cases err)
    with Inl l Suc.prems have "d' = d1"
      by (simp add: listOptions_def d1_def Let_def)
    then show ?thesis
      using advance_fields [OF refl refl same(1) same(2), of d] same(2) same(3)
      by (simp add: advance_refl observed_def seen_at_def)
  next
    case (Inr pods)
    let ?d2 = "d1\<lparr>polled := polled d1 @ [pods]\<rparr>"
    let ?d3 = "foldl (checkPod api) ?d2 pods"
    from Inr l Suc.prems have run: "WatchPods_loop api n ?d3 namespace = (r, d')"
      by (simp add: listOptions_def d1_def Let_def)
    from Suc.IH [OF run] obtain ps where
      ih: "advance ?d3 d'" "polled d' = polled ?d3 @ ps"
          "\<forall>k. seen_at d' k \<longleftrightarrow> seen_at ?d3 k \<or> k \<in> observed (concat ps)"
      by blast
    have "advance ?d2 ?d3" by (rule advance_scan)
    then have "advance d ?d3"
      using advance_fields [of d ?d2 ?d3 ?d3] same by simp
    then have 1: "advance d d'" using ih(1) by (rule advance_trans)
    have 2: "polled d' = polled d @ (pods # ps)" using ih(2) same(3) by simp
    have "seen_at ?d2 k = seen_at d k" for k using same(2) by (simp add: seen_at_def)
    then have 3: "\<forall>k. seen_at d' k \<longleftrightarrow> seen_at d k \<or> k \<in> observed (concat (pods # ps))"
      using ih(3) by (simp add: seen_scan observed_append)
    from 1 2 3 show ?thesis by blast
  qed
qed

section \<open>The demonstration cluster\<close>

lemma count_list_distinct: "distinct xs \<Longrightarrow> count_list xs x = (if x \<in> set xs then 1 else 0)"
  by (induction xs) auto

lemma demo_checkPod_first:
  "\<not> seen_at d ''prod/web-app-CrashLoopBackOff'' \<Longrightarrow> checkPod demo_api d demo_pod =
     d\<lparr>explained := explained d @ [(''prod/web-app-CrashLoopBackOff'',
          \<lparr>PodName = ''web'', Namespace = ''prod'', ContainerName = ''app'',
           Reason = ''CrashLoopBackOff'', Message = ''back-off restarting failed container'',
           ExitCode = 0, LastLog = ''fatal: OOM''\<rparr>)],
       stdout := stdout d @ Explain \<lparr>PodName = ''web'', Namespace = ''prod'', ContainerName = ''app'',
           Reason = ''CrashLoopBackOff'', Message = ''back-off restarting failed container'',
           ExitCode = 0, LastLog = ''fatal: OOM''\<rparr> @ ''\<newline>'' @ separator @ ''\<newline>'',
       seen := (seen d)(''prod/web-app-CrashLoopBackOff'' \<mapsto> True)\<rparr>"
  by (simp add: checkPod_def checkContainerStatus_def checkWaiting_def checkTerminated_def
      demo_pod_def demo_status_def demo_api_def podKey_of_def waitingKey_def isFailureReason_def
      gatherFailureInfo_def getLastLog_def Let_def)

lemma demo_checkPod_again:
  "seen_at d ''prod/web-app-CrashLoopBackOff'' \<Longrightarrow> checkPod demo_api d demo_pod = d"
  by (simp add: checkPod_def checkContainerStatus_def checkWaiting_def checkTerminated_def
      demo_pod_def demo_status_def podKey_of_def waitingKey_def isFailureReason_def Let_def)

lemma demo_observed: "observed [demo_pod] = {''prod/web-app-CrashLoopBackOff''}"
  by (simp add: observed_def statusKeys_def demo_pod_def demo_status_def podKey_of_def
      waitingKey_def isFailureReason_def)

lemma demo_run_fields:
  "polled demo_run = [[demo_pod], [demo_pod]]"
  "seen_at demo_run ''prod/web-app-CrashLoopBackOff''"
  "map fst (explained demo_run) = [''prod/web-app-CrashLoopBackOff'']"
  by (simp_all add: demo_run_def WatchPods_def numeral_2_eq_2 Let_def New_def demo_opts_def
      demo_checkPod_first demo_checkPod_again seen_at_def
      demo_api_def [THEN arg_cong, of Pods_List])

section \<open>Where the explained records come from\<close>

lemma adds_refl: "adds P d d"
  unfolding adds_def by (rule exI [of _ "[]"]) simp

lemma adds_trans: "adds P d d' \<Longrightarrow> adds P d' d'' \<Longrightarrow> adds P d d''"
  unfolding adds_def by (metis append.assoc list_all_append)

lemma adds_foldl:
  assumes "\<And>d x. x \<in> set xs \<Longrightarrow> adds P d (f d x)"
  shows "adds P d (foldl f d xs)"
  using assms
proof (induction xs arbitrary: d)
  case Nil
  show ?case by (simp add: adds_refl)
next
  case (Cons x xs)
  have "adds P d (f d x)" using Cons.prems by simp
  moreover have "adds P (f d x) (foldl f (f d x) xs)" using Cons.IH Cons.prems by simp
  ultimately show ?case using adds_trans by fastforce
qed

lemma adds_new:
  "adds P d d' \<Longrightarrow> explained d' = explained d @ new \<Longrightarrow> list_all P new"
  unfolding adds_def by auto

lemma gatherFailureInfo_from_waiting:
  assumes "Waiting (State cs) = Some waiting" and "isFailureReason (waiting_Reason waiting)"
  shows "from_waiting pod cs (fst (gatherFailureInfo api d pod cs waiting))"
  using assms by (simp add: from_waiting_def gatherFailureInfo_def split: prod.splits)

lemma gatherTerminationInfo_from_terminated:
  assumes "Terminated (State cs) = Some terminated" and "terminated_ExitCode terminated \<noteq> 0"
  shows "from_terminated pod cs (fst (gatherTerminationInfo api d pod cs terminated))"
  using assms
  by (simp add: from_terminated_def gatherTerminationInfo_def Let_def split: prod.splits)

lemma adds_checkWaiting:
  assumes "\<And>waiting. Waiting (State cs) = Some waiting \<Longrightarrow>
      isFailureReason (waiting_Reason waiting) \<Longrightarrow>
      P (waitingKey podKey (status_Name cs) (waiting_Reason waiting),
         fst (gatherFailureInfo api d pod cs waiting))"
  shows "adds P d (checkWaiting api pod podKey d cs)"
proof (cases "\<exists>waiting. Waiting (State cs) = Some waiting
    \<and> isFailureReason (waiting_Reason waiting)
    \<and> \<not> seen_at d (waitingKey podKey (status_Name cs) (waiting_Reason waiting))")
  case True
  then obtain waiting where w: "Waiting (State cs) = Some waiting"
      "isFailureReason (waiting_Reason waiting)"
      "\<not> seen_at d (waitingKey podKey (status_Name cs) (waiting_Reason waiting))"
    by blast
  from checkWaiting_report [OF this, of api pod] assms [OF w(1,2)]
  show ?thesis unfolding adds_def by auto
next
  case False
  then have "checkWaiting api pod podKey d cs = d" by (intro checkWaiting_skip) blast
  then show ?thesis by (simp add: adds_refl)
qed

lemma adds_checkTerminated:
  assumes "\<And>terminated. Terminated (State cs) = Some terminated \<Longrightarrow>
      terminated_ExitCode terminated \<noteq> 0 \<Longrightarrow>
      P (terminatedKey podKey (status_Name cs) (terminated_ExitCode terminated),
         fst (gatherTerminationInfo api d pod cs terminated))"
  shows "adds P d (checkTerminated api pod podKey d cs)"
proof (cases "\<exists>terminated. Terminated (State cs) = Some terminated
    \<and> terminated_ExitCode terminated \<noteq> 0
    \<and> \<not> seen_at d (terminatedKey podKey (status_Name cs) (terminated_ExitCode terminated))")
  case True
  then obtain terminated where t: "Terminated (State cs) = Some terminated"
      "terminated_ExitCode terminated \<noteq> 0"
      "\<not> seen_at d (terminatedKey podKey (status_Name cs) (terminated_ExitCode terminated))"
    by blast
  from checkTerminated_report [OF this, of api pod] assms [OF t(1,2)]
  show ?thesis unfolding adds_def by auto
next
  case False
  then have "checkTerminated api pod podKey d cs = d" by (intro checkTerminated_skip) blast
  then show ?thesis by (simp add: adds_refl)
qed

lemma adds_checkContainerStatus_origin:
  "adds (\<lambda>e. from_waiting pod cs (snd e) \<or> from_terminated pod cs (snd e)) d
     (checkContainerStatus api pod podKey d cs)"
  unfolding checkContainerStatus_def Let_def
  by (rule adds_trans [OF adds_checkWaiting adds_checkTerminated])
    (simp_all add: gatherFailureInfo_from_waiting gatherTerminationInfo_from_terminated)

lemma adds_mono: "adds P d d' \<Longrightarrow> (\<And>e. P e \<Longrightarrow> Q e) \<Longrightarrow> adds Q d d'"
  unfolding adds_def by (auto simp add: list_all_iff)

lemma adds_checkPod_origin:
  "adds (\<lambda>e. \<exists>cs \<in> set (ContainerStatuses pod).
           from_waiting pod cs (snd e) \<or> from_terminated pod cs (snd e)) d
     (checkPod api d pod)"
  unfolding checkPod_def Let_def
proof (rule adds_foldl)
  fix d :: "'a PodDetector" and cs
  assume "cs \<in> set (ContainerStatuses pod)"
  then show "adds (\<lambda>e. \<exists>cs \<in> set (ContainerStatuses pod).
           from_waiting pod cs (snd e) \<or> from_terminated pod cs (snd e)) d
     (checkContainerStatus api pod (podKey_of pod) d cs)"
    by (intro adds_mono [OF adds_checkContainerStatus_origin]) blast
qed

section \<open>The text of an explanation\<close>

lemma sublist_concat_nth:
  assumes "i < length yss" and "sublist xs (yss ! i)"
  shows "sublist xs (concat yss)"
proof -
  have "yss = take i yss @ (yss ! i) # drop (Suc i) yss"
    using assms(1) by (rule id_take_nth_drop)
  then have c: "concat yss = concat (take i yss) @ (yss ! i) @ concat (drop (Suc i) yss)"
    by (metis concat.simps(2) concat_append)
  from assms(2) obtain ps ss where "yss ! i = ps @ xs @ ss"
    by (auto simp: sublist_def)
  with c have "concat yss = (concat (take i yss) @ ps) @ xs @ (ss @ concat (drop (Suc i) yss))"
    by simp
  then show ?thesis
    unfolding sublist_def by blast
qed

lemma sublist_trans: "sublist xs ys \<Longrightarrow> sublist ys zs \<Longrightarrow> sublist xs zs"
  unfolding sublist_def by (metis append.assoc)

lemma notin_concat: "list_all (\<lambda>xs. c \<notin> set xs) xss \<Longrightarrow> c \<notin> set (concat xss)"
  by (induction xss) auto

lemma Explain_template:
  "Explain info = header info @
     (if Reason info = ''CrashLoopBackOff'' then explainCrashLoopBackOff info
      else if Reason info = ''ImagePullBackOff'' \<or> Reason info = ''ErrImagePull''
        then explainImagePullError info
      else if Reason info = ''OOMKilled'' then explainOOMKilled info
      else if Reason info = ''CreateContainerConfigError'' then explainConfigError info
      else if Reason info = ''RunContainerError'' then explainRunContainerError info
      else if Reason info = ''InvalidImageName'' then explainInvalidImageName info
      else explainGeneric info)"
  unfolding Explain_def header_def by (simp only: concat.simps append_assoc append_Nil2)

lemma Explain_crash_loop:
  "Reason info = ''CrashLoopBackOff'' \<Longrightarrow> Explain info = header info @ explainCrashLoopBackOff info"
  by (simp add: Explain_template)

lemma template_in_Explain:
  "Reason info = ''CrashLoopBackOff'' \<Longrightarrow> sublist (explainCrashLoopBackOff info) (Explain info)"
  by (simp add: Explain_crash_loop)

lemma log_in_crash_loop: "sublist (LastLog info) (explainCrashLoopBackOff info)"
proof (cases "LastLog info = []")
  case True
  then show ?thesis by simp
next
  case False
  have "sublist (LastLog info)
      (concat [MEMO @ '' LAST ERROR MESSAGE:\<newline>'', LastLog info @ ''\<newline>\<newline>''])"
    by (rule sublist_concat_nth [where i = 1]) simp_all
  with False show ?thesis
    unfolding explainCrashLoopBackOff_def
    by (intro sublist_concat_nth [where i = 6]) simp_all
qed

lemma exit_code_in_crash_loop:
  assumes "ExitCode info \<noteq> 0"
  shows "sublist (explainExitCode (ExitCode info)) (explainCrashLoopBackOff info)"
proof -
  have "sublist (explainExitCode (ExitCode info))
     (concat [''Exit Code: '' @ fmt_d (ExitCode info) @ ''\<newline>'',
              explainExitCode (ExitCode info) @ ''\<newline>\<newline>''])"
    by (rule sublist_concat_nth [where i = 1]) simp_all
  with assms show ?thesis
    unfolding explainCrashLoopBackOff_def
    by (intro sublist_concat_nth [where i = 5]) simp_all
qed

lemma summary_in_crash_loop:
  "sublist ''Your container keeps crashing and restarting.'' (explainCrashLoopBackOff info)"
proof -
  have "''Your container keeps crashing and restarting.\<newline>\<newline>''
      = ''Your container keeps crashing and restarting.'' @ ''\<newline>\<newline>''"
    by simp
  then have "sublist ''Your container keeps crashing and restarting.''
      ''Your container keeps crashing and restarting.\<newline>\<newline>''"
    by (metis sublist_append_rightI)
  then show ?thesis
    unfolding explainCrashLoopBackOff_def
    by (intro sublist_concat_nth [where i = 1]) simp_all
qed

lemma other_templates_ignore_log:
  "explainImagePullError (info\<lparr>LastLog := l\<rparr>) = explainImagePullError info"
  "explainOOMKilled (info\<lparr>LastLog := l\<rparr>) = explainOOMKilled info"
  "explainConfigError (info\<lparr>LastLog := l\<rparr>) = explainConfigError info"
  "explainRunContainerError (info\<lparr>LastLog := l\<rparr>) = explainRunContainerError info"
  "explainInvalidImageName (info\<lparr>LastLog := l\<rparr>) = explainInvalidImageName info"
  "explainGeneric (info\<lparr>LastLog := l\<rparr>) = explainGeneric info"
  "header (info\<lparr>LastLog := l\<rparr>) = header info"
  by (cases info; simp only: explainImagePullError_def explainOOMKilled_def
      explainConfigError_def explainRunContainerError_def explainInvalidImageName_def
      explainGeneric_def header_def FailureInfo.simps)+

section \<open>Facts about the example records\<close>

lemma no_J_in_oom_template: "CHR ''J'' \<notin> set (explainOOMKilled oom_info)"
  unfolding explainOOMKilled_def
  apply (rule notin_concat)
  apply (simp only: list.pred_inject)
  apply (intro conjI)
  apply (simp_all add: oom_info_def)
  done

lemma no_J_in_oom_header: "CHR ''J'' \<notin> set (header oom_info)"
  by (simp add: header_def oom_info_def)

lemma demo_first_check:
  "checkPod demo_api (New () demo_opts) demo_pod =
     (New () demo_opts)
       \<lparr>explained := [(''prod/web-app-CrashLoopBackOff'', crash_info\<lparr>
            Message := ''back-off restarting failed container'', ExitCode := 0\<rparr>)],
        stdout := Explain (crash_info\<lparr>Message := ''back-off restarting failed container'',
            ExitCode := 0\<rparr>) @ ''\<newline>'' @ separator @ ''\<newline>'',
        seen := [''prod/web-app-CrashLoopBackOff'' \<mapsto> True]\<rparr>"
  using demo_checkPod_first [of "New () demo_opts"]
  by (simp add: New_def seen_at_def crash_info_def)

lemma no_arrow_in_demo_template:
  "CHR 0x86 \<notin> set (explainCrashLoopBackOff
      (crash_info\<lparr>Message := ''back-off restarting failed container'', ExitCode := 0\<rparr>))"
  unfolding explainCrashLoopBackOff_def
  apply (rule notin_concat)
  apply (simp only: list.pred_inject)
  apply (intro conjI)
  apply (simp_all add: crash_info_def)
  done

lemma no_arrow_in_demo_header:
  "CHR 0x86 \<notin> set (header
      (crash_info\<lparr>Message := ''back-off restarting failed container'', ExitCode := 0\<rparr>))"
  by (simp add: header_def crash_info_def)

lemma gatherFailureInfo_ignores_last_termination:
  "gatherFailureInfo api d pod (cs\<lparr>LastTerminationState := lts\<rparr>) waiting
     = gatherFailureInfo api d pod cs waiting"
  by (simp add: gatherFailureInfo_def)

section \<open>What a scan prints, and the log tails it reads\<close>

lemma prints_refl: "prints d d"
  unfolding prints_def by (rule exI [of _ "[]"]) simp

lemma prints_trans: "prints d d' \<Longrightarrow> prints d' d'' \<Longrightarrow> prints d d''"
proof -
  assume "prints d d'" and "prints d' d''"
  then obtain n1 n2 where
    1: "explained d' = explained d @ n1" "stdout d' = stdout d @ concat (map block n1)"
    and 2: "explained d'' = explained d' @ n2" "stdout d'' = stdout d' @ concat (map block n2)"
    unfolding prints_def by blast
  then have "explained d'' = explained d @ (n1 @ n2)
      \<and> stdout d'' = stdout d @ concat (map block (n1 @ n2))"
    by simp
  then show ?thesis unfolding prints_def by blast
qed

lemma prints_foldl:
  assumes "\<And>d x. prints d (f d x)"
  shows "prints d (foldl f d xs)"
proof (induction xs arbitrary: d)
  case Nil
  show ?case by (simp add: prints_refl)
next
  case (Cons x xs)
  show ?case using prints_trans [OF assms [of d x] Cons [of "f d x"]] by simp
qed

lemma prints_checkWaiting: "prints d (checkWaiting api pod podKey d cs)"
proof (cases "\<exists>waiting. Waiting (State cs) = Some waiting
    \<and> isFailureReason (waiting_Reason waiting)
    \<and> \<not> seen_at d (waitingKey podKey (status_Name cs) (waiting_Reason waiting))")
  case True
  then obtain waiting where w: "Waiting (State cs) = Some waiting"
      "isFailureReason (waiting_Reason waiting)"
      "\<not> seen_at d (waitingKey podKey (status_Name cs) (waiting_Reason waiting))"
    by blast
  from checkWaiting_report [OF this, of api pod] obtain info w where
    r: "checkWaiting api pod podKey d cs =
        d\<lparr>cluster := w,
          explained := explained d
            @ [(waitingKey podKey (status_Name cs) (waiting_Reason waiting), info)],
          stdout := (stdout d @ Explain info @ ''\<newline>'') @ separator @ ''\<newline>'',
          seen := (seen d)(waitingKey podKey (status_Name cs) (waiting_Reason waiting)
                     \<mapsto> True)\<rparr>"
    by blast
  show ?thesis
    unfolding prints_def r
    by (rule exI [of _ "[(waitingKey podKey (status_Name cs) (waiting_Reason waiting), info)]"])
      (simp add: block_def)
next
  case False
  then have "checkWaiting api pod podKey d cs = d" by (intro checkWaiting_skip) blast
  then show ?thesis by (simp add: prints_refl)
qed

lemma prints_checkTerminated: "prints d (checkTerminated api pod podKey d cs)"
proof (cases "\<exists>terminated. Terminated (State cs) = Some terminated
    \<and> terminated_ExitCode terminated \<noteq> 0
    \<and> \<not> seen_at d (terminatedKey podKey (status_Name cs) (terminated_ExitCode terminated))")
  case True
  then obtain terminated where t: "Terminated (State cs) = Some terminated"
      "terminated_ExitCode terminated \<noteq> 0"
      "\<not> seen_at d (terminatedKey podKey (status_Name cs) (terminated_ExitCode terminated))"
    by blast
  from checkTerminated_report [OF this, of api pod] obtain info w where
    r: "checkTerminated api pod podKey d cs =
        d\<lparr>cluster := w,
          explained := explained d
            @ [(terminatedKey podKey (status_Name cs) (terminated_ExitCode terminated), info)],
          stdout := (stdout d @ Explain info @ ''\<newline>'') @ separator @ ''\<newline>'',
          seen := (seen d)(terminatedKey podKey (status_Name cs)
                             (terminated_ExitCode terminated) \<mapsto> True)\<rparr>"
    by blast
  show ?thesis
    unfolding prints_def r
    by (rule exI [of _ "[(terminatedKey podKey (status_Name cs)
          (terminated_ExitCode terminated), info)]"])
      (simp add: block_def)
next
  case False
  then have "checkTerminated api pod podKey d cs = d" by (intro checkTerminated_skip) blast
  then show ?thesis by (simp add: prints_refl)
qed

lemma prints_checkPod: "prints d (checkPod api d pod)"
  unfolding checkPod_def checkContainerStatus_def Let_def
  by (rule prints_foldl) (rule prints_trans [OF prints_checkWaiting prints_checkTerminated])

lemma getLastLog_request:
  "getLastLog api d namespace podName containerName =
     (case Pods_GetLogs api (cluster d) namespace podName
             \<lparr>Container = containerName, TailLines = Some 10\<rparr> of
        (Inl err, w) \<Rightarrow> ('''', d\<lparr>cluster := w\<rparr>)
      | (Inr logs, w) \<Rightarrow> (logs, d\<lparr>cluster := w\<rparr>))"
  by (simp add: getLastLog_def split: prod.splits sum.splits)

lemma getLastLog_failed:
  assumes "\<forall>w ns p lo. isl (fst (Pods_GetLogs api w ns p lo))"
  shows "fst (getLastLog api d namespace podName containerName) = ''''"
proof -
  obtain r w where g: "Pods_GetLogs api (cluster d) namespace podName
      \<lparr>Container = containerName, TailLines = Some 10\<rparr> = (r, w)"
    by (cases "Pods_GetLogs api (cluster d) namespace podName
      \<lparr>Container = containerName, TailLines = Some 10\<rparr>")
  with assms have "isl r" by (metis fst_conv)
  then obtain err where "r = Inl err" by (cases r) auto
  with g show ?thesis by (simp add: getLastLog_request)
qed

lemma adds_checkPod_failed_logs:
  assumes "\<forall>w ns p lo. isl (fst (Pods_GetLogs api w ns p lo))"
  shows "adds (\<lambda>e. LastLog (snd e) = '''') d (checkPod api d pod)"
  unfolding checkPod_def checkContainerStatus_def Let_def
proof (rule adds_foldl, rule adds_trans [OF adds_checkWaiting adds_checkTerminated])
  fix d :: "'a PodDetector" and cs waiting
  show "LastLog (snd (waitingKey (podKey_of pod) (status_Name cs) (waiting_Reason waiting),
      fst (gatherFailureInfo api d pod cs waiting))) = ''''"
    using getLastLog_failed [OF assms, of d "pod_Namespace pod" "pod_Name pod" "status_Name cs"]
    by (auto simp add: gatherFailureInfo_def split: prod.splits)
next
  fix d :: "'a PodDetector" and cs terminated
  show "LastLog (snd (terminatedKey (podKey_of pod) (status_Name cs)
        (terminated_ExitCode terminated),
      fst (gatherTerminationInfo api d pod cs terminated))) = ''''"
    using getLastLog_failed [OF assms, of d "pod_Namespace pod" "pod_Name pod" "status_Name cs"]
    by (auto simp add: gatherTerminationInfo_def Let_def split: prod.splits)
qed

lemma checkPod_new_keys:
  assumes "explained (checkPod api d pod) = explained d @ new"
  shows "fst ` set new = {k \<in> observed [pod]. \<not> seen_at d k}"
proof -
  from advance_checkPod [of d api pod] obtain n where
    n: "explained (checkPod api d pod) = explained d @ n"
       "\<forall>k. seen_at (checkPod api d pod) k = (seen_at d k \<or> k \<in> fst ` set n)"
       "\<forall>k. k \<in> fst ` set n \<longrightarrow> \<not> seen_at d k"
    unfolding advance_def by blast
  from n(1) assms have "n = new" by simp
  with n(2,3) seen_checkPod [of api d pod] show ?thesis by blast
qed

section \<open>The templates differ\<close>

lemma differ_at:
  assumes "i < length xs" and "i < length ys" and "xs ! i \<noteq> ys ! i"
  shows "xs @ r \<noteq> ys @ r'"
proof
  assume "xs @ r = ys @ r'"
  then have "(xs @ r) ! i = (ys @ r') ! i" by simp
  with assms show False by (simp add: nth_append)
qed

lemma differ_concat:
  assumes "i < length (a @ b)" and "i < length (a' @ b')" and "(a @ b) ! i \<noteq> (a' @ b') ! i"
  shows "concat (a # b # r) \<noteq> concat (a' # b' # r')"
  using differ_at [OF assms, of "concat r" "concat r'"] by simp

lemma concat_last: "xss \<noteq> [] \<Longrightarrow> concat xss = concat (butlast xss) @ last xss"
  by (metis append_butlast_last_id concat.simps(1) concat.simps(2) concat_append append_Nil2)

lemma differ_last:
  assumes "xss \<noteq> []" and "yss \<noteq> []"
    and "last xss = p @ s" and "last yss = q @ t" and "length s = length t" and "s \<noteq> t"
  shows "concat xss \<noteq> concat yss"
proof
  assume "concat xss = concat yss"
  then have "(concat (butlast xss) @ p) @ s = (concat (butlast yss) @ q) @ t"
    using assms(1-4) by (simp add: concat_last)
  with assms(5) have "s = t" by (metis append_eq_append_conv)
  with assms(6) show False by simp
qed

lemma oom_differs:
  "explainOOMKilled info \<noteq> explainCrashLoopBackOff info"
  "explainOOMKilled info \<noteq> explainImagePullError info"
  "explainOOMKilled info \<noteq> explainConfigError info"
  "explainOOMKilled info \<noteq> explainRunContainerError info"
  "explainOOMKilled info \<noteq> explainInvalidImageName info"
  unfolding explainOOMKilled_def explainCrashLoopBackOff_def explainImagePullError_def
    explainConfigError_def explainRunContainerError_def explainInvalidImageName_def
  by (rule differ_concat [where i = 34]; simp)+

lemma oom_differs_generic: "explainOOMKilled info \<noteq> explainGeneric info"
  unfolding explainOOMKilled_def explainGeneric_def
  by (rule differ_last [where s = "''g\<newline>''" and t = "''\<newline>\<newline>''"
        and p = "''- Large file processin''"
        and q = "''kubectl get events -n '' @ Namespace info
          @ '' --field-selector involvedObject.name='' @ PodName info
          @ '' --sort-by='.lastTimestamp'' @ [CHR 0x27]"]; simp)

section \<open>Deduplication\<close>

text \<open>
  C1. Over the whole run of the detector, started from \<open>New\<close> and followed for any number of
  polls against any cluster, \<open>Explain\<close> is called at most once under each status key, and
  exactly once under each key that some poll observed (so a condition observed on two or
  more polls under the same key is explained once). From any state of the detector, a key
  already in the seen set is never explained again.
\<close>

theorem explained_once_per_key:
  "(WatchPods api n (New w opts) namespace = (r, d) \<longrightarrow>
      distinct (map fst (explained d))
      \<and> count_list (map fst (explained d)) k
          = (if k \<in> observed (concat (polled d)) then 1 else 0))
   \<and> (seen_at e k \<and> WatchPods api n e namespace = (s, e') \<longrightarrow>
        (\<exists>new. explained e' = explained e @ new \<and> k \<notin> fst ` set new))"
proof (intro conjI impI)
  assume run: "WatchPods api n (New w opts) namespace = (r, d)"
  let ?d0 = "(New w opts)\<lparr>stdout := stdout (New w opts) @ MAGNIFIER
      @ '' Watching pods in namespace: '' @ namespace @ ''\<newline>\<newline>''\<rparr>"
  from run have "WatchPods_loop api n ?d0 namespace = (r, d)" by (simp add: WatchPods_def)
  from WatchPods_loop_run [OF this] obtain new ps where
    new: "explained d = explained ?d0 @ new" "distinct (map fst new)"
         "\<forall>k. seen_at d k = (seen_at ?d0 k \<or> k \<in> fst ` set new)"
    and ps: "polled d = polled ?d0 @ ps"
         "\<forall>k. seen_at d k \<longleftrightarrow> seen_at ?d0 k \<or> k \<in> observed (concat ps)"
    unfolding advance_def by blast
  have fresh: "\<not> seen_at ?d0 k" for k by (simp add: New_def seen_at_def)
  have e: "explained d = new" using new(1) by (simp add: New_def)
  have p: "polled d = ps" using ps(1) by (simp add: New_def)
  show dist: "distinct (map fst (explained d))" using new(2) e by simp
  have "k \<in> set (map fst (explained d)) \<longleftrightarrow> k \<in> observed (concat (polled d))"
    using new(3) ps(2) fresh e p by auto
  then show "count_list (map fst (explained d)) k
      = (if k \<in> observed (concat (polled d)) then 1 else 0)"
    using count_list_distinct [OF dist, of k] by simp
next
  assume a: "seen_at e k \<and> WatchPods api n e namespace = (s, e')"
  let ?d1 = "e\<lparr>stdout := stdout e @ MAGNIFIER
      @ '' Watching pods in namespace: '' @ namespace @ ''\<newline>\<newline>''\<rparr>"
  from a have "WatchPods_loop api n ?d1 namespace = (s, e')" by (simp add: WatchPods_def)
  from WatchPods_loop_run [OF this] obtain new where
    new: "explained e' = explained ?d1 @ new"
         "\<forall>k. k \<in> fst ` set new \<longrightarrow> \<not> seen_at ?d1 k"
    unfolding advance_def by blast
  have "seen_at ?d1 k" using a by (simp add: seen_at_def)
  with new show "\<exists>new. explained e' = explained e @ new \<and> k \<notin> fst ` set new"
    by auto
qed

text \<open>
  Two polls of the demonstration cluster observe the same condition twice and explain it
  once; from the state reached, two more polls explain nothing under that key.
\<close>

theorem explained_once_per_key_witness:
  "polled demo_run = [[demo_pod], [demo_pod]]
   \<and> ''prod/web-app-CrashLoopBackOff'' \<in> observed (concat (polled demo_run))
   \<and> count_list (map fst (explained demo_run)) ''prod/web-app-CrashLoopBackOff'' = 1
   \<and> distinct (map fst (explained demo_run))
   \<and> seen_at demo_run ''prod/web-app-CrashLoopBackOff''
   \<and> (\<exists>new. explained (snd (WatchPods demo_api 2 demo_run ''prod'')) = explained demo_run @ new
         \<and> ''prod/web-app-CrashLoopBackOff'' \<notin> fst ` set new)"
proof -
  let ?k = "''prod/web-app-CrashLoopBackOff''"
  have run: "WatchPods demo_api 2 (New () demo_opts) ''prod''
      = (fst (WatchPods demo_api 2 (New () demo_opts) ''prod''), demo_run)"
    by (simp add: demo_run_def)
  have again: "WatchPods demo_api 2 demo_run ''prod''
      = (fst (WatchPods demo_api 2 demo_run ''prod''), snd (WatchPods demo_api 2 demo_run ''prod''))"
    by simp
  have obs: "?k \<in> observed (concat (polled demo_run))"
    by (simp add: demo_run_fields(1) observed_Cons [of demo_pod "[demo_pod]"] demo_observed)
  from explained_once_per_key [where api = demo_api and n = 2 and w = "()" and opts = demo_opts
      and namespace = "''prod''" and r = "fst (WatchPods demo_api 2 (New () demo_opts) ''prod'')"
      and s = "fst (WatchPods demo_api 2 demo_run ''prod'')" and d = demo_run and k = ?k and e = demo_run
      and e' = "snd (WatchPods demo_api 2 demo_run ''prod'')"]
    run again obs demo_run_fields(1,2)
  show ?thesis by simp
qed

section \<open>The status key\<close>

text \<open>
  C2. The status key is not injective on the tuple it is formed from, because the separator
  \<open>-\<close> also occurs inside names. The container \<open>app\<close> of the pod \<open>web-1\<close> and the container
  \<open>1-app\<close> of the pod \<open>web\<close>, both in the namespace \<open>prod\<close>, get the same key when they wait
  with the same reason and the same key when they terminate with the same exit code. When
  one poll lists both pods in CrashLoopBackOff, the first is explained and the second is
  suppressed as already seen.
\<close>

theorem status_key_collision:
  "(pod_Name web1_pod, ''app'') \<noteq> (pod_Name web_pod, ''1-app'')
   \<and> waitingKey (podKey_of web1_pod) ''app'' ''CrashLoopBackOff''
       = waitingKey (podKey_of web_pod) ''1-app'' ''CrashLoopBackOff''
   \<and> terminatedKey (podKey_of web1_pod) ''app'' 1 = terminatedKey (podKey_of web_pod) ''1-app'' 1
   \<and> observed [web1_pod] = {''prod/web-1-app-CrashLoopBackOff''}
   \<and> observed [web_pod] = {''prod/web-1-app-CrashLoopBackOff''}
   \<and> map (\<lambda>e. (fst e, PodName (snd e), ContainerName (snd e)))
         (explained (foldl (checkPod demo_api) (New () demo_opts) [web1_pod, web_pod]))
       = [(''prod/web-1-app-CrashLoopBackOff'', ''web-1'', ''app'')]"
proof (intro conjI)
  show "(pod_Name web1_pod, ''app'') \<noteq> (pod_Name web_pod, ''1-app'')"
    by (simp add: web1_pod_def web_pod_def)
  show "waitingKey (podKey_of web1_pod) ''app'' ''CrashLoopBackOff''
       = waitingKey (podKey_of web_pod) ''1-app'' ''CrashLoopBackOff''"
    by (simp add: waitingKey_def podKey_of_def web1_pod_def web_pod_def)
  show "terminatedKey (podKey_of web1_pod) ''app'' 1
      = terminatedKey (podKey_of web_pod) ''1-app'' 1"
    by (simp add: terminatedKey_def podKey_of_def web1_pod_def web_pod_def)
  show "observed [web1_pod] = {''prod/web-1-app-CrashLoopBackOff''}"
    by (simp add: observed_def statusKeys_def web1_pod_def crash_waiting_def podKey_of_def
        waitingKey_def isFailureReason_def)
  show "observed [web_pod] = {''prod/web-1-app-CrashLoopBackOff''}"
    by (simp add: observed_def statusKeys_def web_pod_def crash_waiting_def podKey_of_def
        waitingKey_def isFailureReason_def)
  show "map (\<lambda>e. (fst e, PodName (snd e), ContainerName (snd e)))
         (explained (foldl (checkPod demo_api) (New () demo_opts) [web1_pod, web_pod]))
       = [(''prod/web-1-app-CrashLoopBackOff'', ''web-1'', ''app'')]"
    by (simp add: checkPod_def checkContainerStatus_def checkWaiting_def checkTerminated_def
        web1_pod_def web_pod_def crash_waiting_def podKey_of_def waitingKey_def
        isFailureReason_def seen_at_def New_def gatherFailureInfo_def getLastLog_def
        demo_api_def Let_def)
qed

section \<open>The log tail in the explanation\<close>

text \<open>
  C3, as stated, fails: for a container killed for running out of memory, whose record has
  a non-empty log tail, the explanation does not contain the log tail.
\<close>

theorem log_tail_counterexample:
  "LastLog oom_info \<noteq> '''' \<and> \<not> sublist (LastLog oom_info) (Explain oom_info)"
proof
  show "LastLog oom_info \<noteq> ''''" by (simp add: oom_info_def)
  have "Explain oom_info = header oom_info @ explainOOMKilled oom_info"
    by (simp add: Explain_template oom_info_def)
  then have "CHR ''J'' \<notin> set (Explain oom_info)"
    using no_J_in_oom_template no_J_in_oom_header by simp
  moreover have "CHR ''J'' \<in> set (LastLog oom_info)" by (simp add: oom_info_def)
  ultimately show "\<not> sublist (LastLog oom_info) (Explain oom_info)"
    using set_mono_sublist [of "LastLog oom_info" "Explain oom_info"] by blast
qed

text \<open>
  C3, amended. The crash-loop template is the one that shows the log tail: for every record
  whose reason is CrashLoopBackOff the text returned by \<open>Explain\<close> contains the log tail
  verbatim. For every other reason (the image-pull variants, OOMKilled, the configuration
  error, the run-container error, the invalid image name and the generic fallback) the text
  returned by \<open>Explain\<close> does not depend on the log tail.
\<close>

theorem log_tail_in_crash_loop_only:
  "(Reason info = ''CrashLoopBackOff'' \<longrightarrow> sublist (LastLog info) (Explain info))
   \<and> (Reason info \<noteq> ''CrashLoopBackOff'' \<longrightarrow> Explain (info\<lparr>LastLog := l\<rparr>) = Explain info)"
proof (intro conjI impI)
  assume "Reason info = ''CrashLoopBackOff''"
  then show "sublist (LastLog info) (Explain info)"
    using sublist_trans [OF log_in_crash_loop template_in_Explain] by simp
next
  assume "Reason info \<noteq> ''CrashLoopBackOff''"
  then show "Explain (info\<lparr>LastLog := l\<rparr>) = Explain info"
    by (simp add: Explain_template other_templates_ignore_log)
qed

text \<open>The crash-loop record shows its log line; the out-of-memory record ignores its log.\<close>

theorem log_tail_in_crash_loop_only_witness:
  "Reason crash_info = ''CrashLoopBackOff'' \<and> sublist ''fatal: OOM'' (Explain crash_info)
   \<and> Reason oom_info \<noteq> ''CrashLoopBackOff''
   \<and> Explain (oom_info\<lparr>LastLog := ''''\<rparr>) = Explain oom_info"
  using log_tail_in_crash_loop_only [of crash_info] log_tail_in_crash_loop_only [of oom_info "''''"]
  by (simp add: crash_info_def oom_info_def)

section \<open>The exit-code annotation\<close>

text \<open>
  C4. \<open>explainExitCode\<close> is a closed lookup: each of the codes 0, 1, 2, 126, 127, 130, 137,
  139, 143 and 255 has its fixed description, and every other code gets the generic message
  "Check application documentation", which contains the code printed in decimal (the text
  printed reads back as the signed value of the code).
\<close>

theorem explainExitCode_lookup:
  "explainExitCode 0 = RIGHT_ARROW @ '' Exit code 0: Success (but should not crash)''
   \<and> explainExitCode 1 =
       RIGHT_ARROW @ '' Exit code 1: Application error - check your code for bugs''
   \<and> explainExitCode 2 = RIGHT_ARROW @ '' Exit code 2: Misuse of shell command''
   \<and> explainExitCode 126 =
       RIGHT_ARROW @ '' Exit code 126: Command cannot execute (permission problem?)''
   \<and> explainExitCode 127 =
       RIGHT_ARROW @ '' Exit code 127: Command not found (binary doesn't exist?)''
   \<and> explainExitCode 130 = RIGHT_ARROW @ '' Exit code 130: Terminated by Ctrl+C (SIGINT)''
   \<and> explainExitCode 137 =
       RIGHT_ARROW @ '' Exit code 137: Killed by SIGKILL (usually OOM or forced termination)''
   \<and> explainExitCode 139 =
       RIGHT_ARROW @ '' Exit code 139: Segmentation fault (memory access violation)''
   \<and> explainExitCode 143 =
       RIGHT_ARROW @ '' Exit code 143: Terminated by SIGTERM (graceful shutdown)''
   \<and> explainExitCode 255 = RIGHT_ARROW @ '' Exit code 255: Exit status out of range''
   \<and> (code \<notin> {0, 1, 2, 126, 127, 130, 137, 139, 143, 255} \<longrightarrow>
        explainExitCode code =
          RIGHT_ARROW @ '' Exit code '' @ fmt_d code @ '': Check application documentation''
        \<and> sublist ''Check application documentation'' (explainExitCode code)
        \<and> sublist (fmt_d code) (explainExitCode code)
        \<and> decimal_value (fmt_d code) = sint code)"
proof -
  have gen: "sublist ''Check application documentation'' (explainExitCode code)
        \<and> sublist (fmt_d code) (explainExitCode code)"
    if "code \<notin> {0, 1, 2, 126, 127, 130, 137, 139, 143, 255}"
  proof -
    have e: "explainExitCode code =
          (RIGHT_ARROW @ '' Exit code '') @ fmt_d code @ '': Check application documentation''"
      using that by (simp add: explainExitCode_def)
    have e2: "explainExitCode code =
          (RIGHT_ARROW @ '' Exit code '' @ fmt_d code @ '': '') @ ''Check application documentation''"
      using that by (simp add: explainExitCode_def)
    have "sublist (fmt_d code) (explainExitCode code)"
      unfolding e by (rule sublist_appendI)
    moreover have "sublist ''Check application documentation'' (explainExitCode code)"
      unfolding e2 by (rule sublist_append_leftI)
    ultimately show ?thesis by simp
  qed
  show ?thesis
    using gen by (simp add: explainExitCode_def decimal_value_fmt_d)
qed

text \<open>The generic message at exit code 42, which is outside the table.\<close>

theorem explainExitCode_lookup_witness:
  "(42 :: int32) \<notin> {0, 1, 2, 126, 127, 130, 137, 139, 143, 255}
   \<and> explainExitCode 42 = RIGHT_ARROW @ '' Exit code 42: Check application documentation''
   \<and> decimal_value ''42'' = sint (42 :: int32)"
  using explainExitCode_lookup [of 42] by (simp add: fmt_d_def digits.simps)

section \<open>A termination without a reason\<close>

text \<open>
  C5. For a container that terminated with exit code 1 and for which the cluster supplies
  the empty string as reason, the record that \<open>gatherTerminationInfo\<close> builds has the
  default reason CrashLoopBackOff (a record, not an error) and exit code 1, and its
  explanation is the crash-loop template with the annotation of exit code 1, an
  application error. When the status key is not yet seen, the terminated check emits this
  record and prints this explanation.
\<close>

theorem empty_reason_exit_code_1:
  "Terminated (State cs) = Some terminated \<and> terminated_ExitCode terminated = 1
     \<and> terminated_Reason terminated = ''''
     \<and> gatherTerminationInfo api d pod cs terminated = (info, d1)
   \<longrightarrow> Reason info = ''CrashLoopBackOff'' \<and> ExitCode info = 1
       \<and> Explain info = header info @ explainCrashLoopBackOff info
       \<and> sublist (RIGHT_ARROW
             @ '' Exit code 1: Application error - check your code for bugs'') (Explain info)
       \<and> (\<not> seen_at d (terminatedKey podKey (status_Name cs) 1) \<longrightarrow>
             explained (checkTerminated api pod podKey d cs)
               = explained d @ [(terminatedKey podKey (status_Name cs) 1, info)]
             \<and> stdout (checkTerminated api pod podKey d cs)
               = stdout d @ Explain info @ ''\<newline>'' @ separator @ ''\<newline>'')"
proof (intro impI)
  assume a: "Terminated (State cs) = Some terminated \<and> terminated_ExitCode terminated = 1
     \<and> terminated_Reason terminated = ''''
     \<and> gatherTerminationInfo api d pod cs terminated = (info, d1)"
  then have f: "Reason info = ''CrashLoopBackOff''" "ExitCode info = 1"
    by (auto simp add: gatherTerminationInfo_def Let_def split: prod.splits)
  have nz: "ExitCode info \<noteq> 0" using f(2) by simp
  have ann: "sublist (RIGHT_ARROW
      @ '' Exit code 1: Application error - check your code for bugs'') (Explain info)"
    using sublist_trans [OF exit_code_in_crash_loop [OF nz] template_in_Explain [OF f(1)]] f(2)
    by (simp add: explainExitCode_def)
  have emit: "explained (checkTerminated api pod podKey d cs)
               = explained d @ [(terminatedKey podKey (status_Name cs) 1, info)]
             \<and> stdout (checkTerminated api pod podKey d cs)
               = stdout d @ Explain info @ ''\<newline>'' @ separator @ ''\<newline>''"
    if "\<not> seen_at d (terminatedKey podKey (status_Name cs) 1)"
  proof -
    have "terminated_ExitCode terminated \<noteq> 0" using a by simp
    moreover have "\<not> seen_at d (terminatedKey podKey (status_Name cs)
        (terminated_ExitCode terminated))"
      using that a by simp
    ultimately show ?thesis
      using checkTerminated_report [of cs terminated d podKey api pod] a by auto
  qed
  from f ann emit Explain_crash_loop [OF f(1)]
  show "Reason info = ''CrashLoopBackOff'' \<and> ExitCode info = 1
       \<and> Explain info = header info @ explainCrashLoopBackOff info
       \<and> sublist (RIGHT_ARROW
             @ '' Exit code 1: Application error - check your code for bugs'') (Explain info)
       \<and> (\<not> seen_at d (terminatedKey podKey (status_Name cs) 1) \<longrightarrow>
             explained (checkTerminated api pod podKey d cs)
               = explained d @ [(terminatedKey podKey (status_Name cs) 1, info)]
             \<and> stdout (checkTerminated api pod podKey d cs)
               = stdout d @ Explain info @ ''\<newline>'' @ separator @ ''\<newline>'')"
    by blast
qed

text \<open>The pod \<open>batch\<close>, whose container \<open>worker\<close> exited with code 1 and no reason.\<close>

theorem empty_reason_exit_code_1_witness:
  "gatherTerminationInfo demo_api (New () demo_opts) failed_pod failed_status failed_state
     = (\<lparr>PodName = ''batch'', Namespace = ''prod'', ContainerName = ''worker'',
         Reason = ''CrashLoopBackOff'', Message = '''', ExitCode = 1,
         LastLog = ''fatal: OOM''\<rparr>, New () demo_opts)
   \<and> sublist (RIGHT_ARROW @ '' Exit code 1: Application error - check your code for bugs'')
        (Explain \<lparr>PodName = ''batch'', Namespace = ''prod'', ContainerName = ''worker'',
           Reason = ''CrashLoopBackOff'', Message = '''', ExitCode = 1,
           LastLog = ''fatal: OOM''\<rparr>)
   \<and> map fst (explained (checkTerminated demo_api failed_pod (podKey_of failed_pod)
         (New () demo_opts) failed_status)) = [''prod/batch-worker-terminated-1'']"
proof -
  let ?i = "\<lparr>PodName = ''batch'', Namespace = ''prod'', ContainerName = ''worker'',
         Reason = ''CrashLoopBackOff'', Message = '''', ExitCode = 1,
         LastLog = ''fatal: OOM''\<rparr>"
  have g: "gatherTerminationInfo demo_api (New () demo_opts) failed_pod failed_status failed_state
     = (?i, New () demo_opts)"
    by (simp add: gatherTerminationInfo_def getLastLog_def demo_api_def failed_pod_def
        failed_status_def failed_state_def New_def)
  have h: "Terminated (State failed_status) = Some failed_state
     \<and> terminated_ExitCode failed_state = 1 \<and> terminated_Reason failed_state = ''''
     \<and> gatherTerminationInfo demo_api (New () demo_opts) failed_pod failed_status failed_state
         = (?i, New () demo_opts)"
    using g by (simp add: failed_status_def failed_state_def)
  have key: "terminatedKey (podKey_of failed_pod) (status_Name failed_status) 1
      = ''prod/batch-worker-terminated-1''"
    by (simp add: terminatedKey_def podKey_of_def failed_pod_def failed_status_def fmt_d_def
        digits.simps)
  have fresh: "\<not> seen_at (New () demo_opts)
      (terminatedKey (podKey_of failed_pod) (status_Name failed_status) 1)"
    by (simp add: seen_at_def New_def)
  note t = empty_reason_exit_code_1 [where cs = failed_status and terminated = failed_state
      and api = demo_api and d = "New () demo_opts" and pod = failed_pod and info = ?i
      and ?d1.0 = "New () demo_opts" and podKey = "podKey_of failed_pod"]
  from t h have 1: "sublist (RIGHT_ARROW
      @ '' Exit code 1: Application error - check your code for bugs'') (Explain ?i)"
    by blast
  from t h fresh have "explained (checkTerminated demo_api failed_pod (podKey_of failed_pod)
         (New () demo_opts) failed_status)
       = explained (New () demo_opts)
         @ [(terminatedKey (podKey_of failed_pod) (status_Name failed_status) 1, ?i)]"
    by blast
  then have 2: "map fst (explained (checkTerminated demo_api failed_pod (podKey_of failed_pod)
         (New () demo_opts) failed_status)) = [''prod/batch-worker-terminated-1'']"
    using key by (simp add: New_def)
  from g 1 2 show ?thesis by blast
qed

section \<open>States that are not failures\<close>

text \<open>
  C6. A container status in the Terminated state with exit code 0, or in the Running state
  (its waiting state is unset in both cases), makes the detector do nothing: \<open>checkPod\<close>
  forms no status key for it and the loop body returns the detector as it was, so the seen
  set is unchanged, no record is built, no log is fetched and nothing is printed. A pod all
  of whose containers are so is passed over in the same way.
\<close>

theorem no_action_when_running_or_exit_zero:
  "(Waiting (State cs) = None
      \<and> (Terminated (State cs) = None
          \<or> (\<exists>terminated. Terminated (State cs) = Some terminated
                \<and> terminated_ExitCode terminated = 0))
      \<longrightarrow> statusKeys pod cs = [] \<and> checkContainerStatus api pod podKey d cs = d)
   \<and> ((\<forall>cs \<in> set (ContainerStatuses pod). Waiting (State cs) = None
          \<and> (Terminated (State cs) = None
              \<or> (\<exists>terminated. Terminated (State cs) = Some terminated
                    \<and> terminated_ExitCode terminated = 0)))
      \<longrightarrow> observed [pod] = {} \<and> checkPod api d pod = d)"
proof -
  have step: "statusKeys pod cs = [] \<and> checkContainerStatus api pod podKey d cs = d"
    if "Waiting (State cs) = None"
      and "Terminated (State cs) = None
          \<or> (\<exists>terminated. Terminated (State cs) = Some terminated
                \<and> terminated_ExitCode terminated = 0)"
    for cs podKey and d :: "'a PodDetector"
    using that
    by (auto simp add: statusKeys_def checkContainerStatus_def checkWaiting_def
        checkTerminated_def)
  have "foldl (checkContainerStatus api pod podKey) d css = d"
    if "\<forall>cs \<in> set css. Waiting (State cs) = None
          \<and> (Terminated (State cs) = None
              \<or> (\<exists>terminated. Terminated (State cs) = Some terminated
                    \<and> terminated_ExitCode terminated = 0))" for css podKey
    using that by (induction css) (simp_all add: step)
  then show ?thesis using step by (auto simp add: checkPod_def observed_def)
qed

text \<open>A pod with a completed init container and a running one, checked after two polls.\<close>

theorem no_action_when_running_or_exit_zero_witness:
  "checkContainerStatus demo_api job_pod ''prod/job'' demo_run exited_ok = demo_run
   \<and> checkContainerStatus demo_api job_pod ''prod/job'' demo_run running_ok = demo_run
   \<and> observed [job_pod] = {}
   \<and> checkPod demo_api demo_run job_pod = demo_run"
  using no_action_when_running_or_exit_zero [where cs = exited_ok and pod = job_pod
      and api = demo_api and podKey = "''prod/job''" and d = demo_run]
    no_action_when_running_or_exit_zero [where cs = running_ok and pod = job_pod
      and api = demo_api and podKey = "''prod/job''" and d = demo_run]
  by (simp add: exited_ok_def running_ok_def job_pod_def)

section \<open>The reason classifier\<close>

text \<open>
  C7. \<open>isFailureReason\<close> depends on its string argument alone. It is true exactly for the six
  reasons CrashLoopBackOff, ImagePullBackOff, ErrImagePull, CreateContainerConfigError,
  InvalidImageName and RunContainerError, and false for every other string; the match is
  exact and case-sensitive, so a lower-case spelling, a trailing space and the empty string
  are rejected.
\<close>

theorem isFailureReason_exact:
  "(isFailureReason reason \<longleftrightarrow>
      reason \<in> {''CrashLoopBackOff'', ''ImagePullBackOff'', ''ErrImagePull'',
                 ''CreateContainerConfigError'', ''InvalidImageName'', ''RunContainerError''})
   \<and> \<not> isFailureReason ''crashloopbackoff''
   \<and> \<not> isFailureReason ''CrashLoopBackOff ''
   \<and> \<not> isFailureReason ''''"
  by (simp add: isFailureReason_def)

section \<open>A log that cannot be fetched\<close>

text \<open>
  C8. \<open>getLastLog\<close> asks the cluster for the last 10 lines of the container's log and
  returns them, or the empty string when the request fails. When every log request fails,
  checking a pod still reports each failure it observes under a key not yet seen: the
  records it adds to the history are exactly those keys', each has an empty log tail, and
  the explanation of each is printed; no container of the pod is skipped.
\<close>

theorem log_fetch_failure_is_not_fatal:
  "getLastLog api d namespace podName containerName =
     (case Pods_GetLogs api (cluster d) namespace podName
             \<lparr>Container = containerName, TailLines = Some 10\<rparr> of
        (Inl err, w) \<Rightarrow> ('''', d\<lparr>cluster := w\<rparr>)
      | (Inr logs, w) \<Rightarrow> (logs, d\<lparr>cluster := w\<rparr>))
   \<and> ((\<forall>w ns p lo. isl (fst (Pods_GetLogs api w ns p lo))) \<longrightarrow>
        (\<exists>new. explained (checkPod api d pod) = explained d @ new
           \<and> list_all (\<lambda>e. LastLog (snd e) = '''') new
           \<and> stdout (checkPod api d pod) = stdout d @ concat (map block new)
           \<and> fst ` set new = {k \<in> observed [pod]. \<not> seen_at d k}))"
proof (intro conjI impI)
  show "getLastLog api d namespace podName containerName =
     (case Pods_GetLogs api (cluster d) namespace podName
             \<lparr>Container = containerName, TailLines = Some 10\<rparr> of
        (Inl err, w) \<Rightarrow> ('''', d\<lparr>cluster := w\<rparr>)
      | (Inr logs, w) \<Rightarrow> (logs, d\<lparr>cluster := w\<rparr>))"
    by (rule getLastLog_request)
next
  assume fail: "\<forall>w ns p lo. isl (fst (Pods_GetLogs api w ns p lo))"
  from prints_checkPod [of d api pod] obtain new where
    new: "explained (checkPod api d pod) = explained d @ new"
         "stdout (checkPod api d pod) = stdout d @ concat (map block new)"
    unfolding prints_def by blast
  have "list_all (\<lambda>e. LastLog (snd e) = '''') new"
    using adds_new [OF adds_checkPod_failed_logs [OF fail] new(1)] .
  moreover have "fst ` set new = {k \<in> observed [pod]. \<not> seen_at d k}"
    using new(1) by (rule checkPod_new_keys)
  ultimately show "\<exists>new. explained (checkPod api d pod) = explained d @ new
           \<and> list_all (\<lambda>e. LastLog (snd e) = '''') new
           \<and> stdout (checkPod api d pod) = stdout d @ concat (map block new)
           \<and> fst ` set new = {k \<in> observed [pod]. \<not> seen_at d k}"
    using new by blast
qed

text \<open>
  The demonstration pod on a cluster that refuses every log request: the crash loop is
  reported, with an empty log tail.
\<close>

theorem log_fetch_failure_is_not_fatal_witness:
  "(\<forall>w ns p lo. isl (fst (Pods_GetLogs down_api w ns p lo)))
   \<and> getLastLog down_api (New () demo_opts) ''prod'' ''web'' ''app'' = ('''', New () demo_opts)
   \<and> map LastLog (map snd (explained (checkPod down_api (New () demo_opts) demo_pod))) = ['''']
   \<and> fst ` set (explained (checkPod down_api (New () demo_opts) demo_pod))
       = {''prod/web-app-CrashLoopBackOff''}
   \<and> stdout (checkPod down_api (New () demo_opts) demo_pod)
       = concat (map block (explained (checkPod down_api (New () demo_opts) demo_pod)))"
proof -
  have fail: "\<forall>w ns p lo. isl (fst (Pods_GetLogs down_api w ns p lo))"
    by (simp add: down_api_def)
  note t = log_fetch_failure_is_not_fatal [where api = down_api and d = "New () demo_opts"
      and namespace = "''prod''" and podName = "''web''" and containerName = "''app''"
      and pod = demo_pod]
  from t have 1: "getLastLog down_api (New () demo_opts) ''prod'' ''web'' ''app''
      = ('''', New () demo_opts)"
    by (simp add: down_api_def New_def)
  from t fail obtain new where
    new: "explained (checkPod down_api (New () demo_opts) demo_pod)
            = explained (New () demo_opts) @ new"
         "list_all (\<lambda>e. LastLog (snd e) = '''') new"
         "stdout (checkPod down_api (New () demo_opts) demo_pod)
            = stdout (New () demo_opts) @ concat (map block new)"
         "fst ` set new = {k \<in> observed [demo_pod]. \<not> seen_at (New () demo_opts) k}"
    by blast
  have e: "explained (checkPod down_api (New () demo_opts) demo_pod) = new"
    using new(1) by (simp add: New_def)
  have keys: "fst ` set new = {''prod/web-app-CrashLoopBackOff''}"
    using new(4) by (auto simp add: demo_observed seen_at_def New_def)
  have d: "distinct (map fst new)"
    using advance_checkPod [of "New () demo_opts" down_api demo_pod] e
    unfolding advance_def by (auto simp add: New_def)
  have "length new = 1"
  proof -
    have "card (set (map fst new)) = length (map fst new)" using d by (rule distinct_card)
    with keys show ?thesis by simp
  qed
  then obtain x where x: "new = [x]" by (cases new) auto
  with new(2) have "map LastLog (map snd new) = ['''']" by simp
  with 1 fail e keys new(3) show ?thesis by (simp add: New_def)
qed

section \<open>The crash-loop scenario\<close>

text \<open>
  C9, as stated, fails: the pod \<open>web\<close> of namespace \<open>prod\<close> has the container \<open>app\<close> waiting
  in CrashLoopBackOff, its last termination had exit code 137 and its log tail is
  \<open>fatal: OOM\<close>; what the detector prints for it does not contain the annotation of exit
  code 137.
\<close>

theorem crash_loop_scenario_counterexample:
  "\<not> sublist (explainExitCode 137) (stdout (checkPod demo_api (New () demo_opts) demo_pod))"
proof
  let ?info = "crash_info\<lparr>Message := ''back-off restarting failed container'', ExitCode := 0\<rparr>"
  assume "sublist (explainExitCode 137) (stdout (checkPod demo_api (New () demo_opts) demo_pod))"
  then have "set (explainExitCode 137)
      \<subseteq> set (stdout (checkPod demo_api (New () demo_opts) demo_pod))"
    by (rule set_mono_sublist)
  moreover have "CHR 0x86 \<in> set (explainExitCode 137)"
    by (simp add: explainExitCode_def)
  moreover have "Explain ?info = header ?info @ explainCrashLoopBackOff ?info"
    by (simp add: Explain_template crash_info_def)
  then have "CHR 0x86 \<notin> set (stdout (checkPod demo_api (New () demo_opts) demo_pod))"
    using no_arrow_in_demo_template no_arrow_in_demo_header
    by (simp add: demo_first_check)
  ultimately show False by blast
qed

text \<open>
  C9, amended. For the container \<open>app\<close> in namespace \<open>prod\<close>, detected in the Waiting state
  with reason CrashLoopBackOff and log tail \<open>fatal: OOM\<close>, the record has exit code 0
  whatever the last termination was, and the explanation is the crash-loop template and
  contains the log line \<open>fatal: OOM\<close>. The annotation of exit code 137 (killed by SIGKILL,
  usually OOM) is in the explanation of a record that itself has reason CrashLoopBackOff
  and exit code 137, together with the template and the log line.
\<close>

theorem crash_loop_scenario:
  "(pod_Namespace pod = ''prod'' \<and> status_Name cs = ''app''
      \<and> waiting_Reason waiting = ''CrashLoopBackOff''
      \<and> gatherFailureInfo api d pod cs waiting = (info, d1) \<and> LastLog info = ''fatal: OOM''
    \<longrightarrow> Namespace info = ''prod'' \<and> ContainerName info = ''app'' \<and> ExitCode info = 0
        \<and> gatherFailureInfo api d pod (cs\<lparr>LastTerminationState := lts\<rparr>) waiting = (info, d1)
        \<and> Explain info = header info @ explainCrashLoopBackOff info
        \<and> sublist ''Your container keeps crashing and restarting.'' (Explain info)
        \<and> sublist ''fatal: OOM'' (Explain info))
   \<and> (Reason r = ''CrashLoopBackOff'' \<and> ExitCode r = 137 \<and> LastLog r = ''fatal: OOM''
    \<longrightarrow> Explain r = header r @ explainCrashLoopBackOff r
        \<and> sublist ''Your container keeps crashing and restarting.'' (Explain r)
        \<and> sublist (RIGHT_ARROW
              @ '' Exit code 137: Killed by SIGKILL (usually OOM or forced termination)'')
            (Explain r)
        \<and> sublist ''fatal: OOM'' (Explain r))"
proof (intro conjI impI)
  assume a: "pod_Namespace pod = ''prod'' \<and> status_Name cs = ''app''
      \<and> waiting_Reason waiting = ''CrashLoopBackOff''
      \<and> gatherFailureInfo api d pod cs waiting = (info, d1) \<and> LastLog info = ''fatal: OOM''"
  then have f: "Namespace info = ''prod''" "ContainerName info = ''app''" "ExitCode info = 0"
      "Reason info = ''CrashLoopBackOff''"
    by (auto simp add: gatherFailureInfo_def split: prod.splits)
  show "Namespace info = ''prod''" "ContainerName info = ''app''" "ExitCode info = 0"
    by (rule f)+
  show "gatherFailureInfo api d pod (cs\<lparr>LastTerminationState := lts\<rparr>) waiting = (info, d1)"
    using a by (simp add: gatherFailureInfo_ignores_last_termination)
  show "Explain info = header info @ explainCrashLoopBackOff info"
    using f(4) by (rule Explain_crash_loop)
  show "sublist ''Your container keeps crashing and restarting.'' (Explain info)"
    using sublist_trans [OF summary_in_crash_loop template_in_Explain [OF f(4)]] .
  show "sublist ''fatal: OOM'' (Explain info)"
    using sublist_trans [OF log_in_crash_loop template_in_Explain [OF f(4)]] a by simp
next
  assume b: "Reason r = ''CrashLoopBackOff'' \<and> ExitCode r = 137 \<and> LastLog r = ''fatal: OOM''"
  then have reason: "Reason r = ''CrashLoopBackOff''" by simp
  show "Explain r = header r @ explainCrashLoopBackOff r"
    using reason by (rule Explain_crash_loop)
  show "sublist ''Your container keeps crashing and restarting.'' (Explain r)"
    using sublist_trans [OF summary_in_crash_loop template_in_Explain [OF reason]] .
  show "sublist ''fatal: OOM'' (Explain r)"
    using sublist_trans [OF log_in_crash_loop template_in_Explain [OF reason]] b by simp
  have "ExitCode r \<noteq> 0" using b by simp
  from sublist_trans [OF exit_code_in_crash_loop [OF this] template_in_Explain [OF reason]]
  show "sublist (RIGHT_ARROW
        @ '' Exit code 137: Killed by SIGKILL (usually OOM or forced termination)'') (Explain r)"
    using b by (simp add: explainExitCode_def)
qed

text \<open>
  The scenario on the demonstration cluster, and the record with exit code 137.
\<close>

theorem crash_loop_scenario_witness:
  "gatherFailureInfo demo_api (New () demo_opts) demo_pod demo_status
       \<lparr>waiting_Reason = ''CrashLoopBackOff'',
        waiting_Message = ''back-off restarting failed container''\<rparr>
     = (crash_info\<lparr>Message := ''back-off restarting failed container'', ExitCode := 0\<rparr>,
        New () demo_opts)
   \<and> sublist ''fatal: OOM''
        (Explain (crash_info\<lparr>Message := ''back-off restarting failed container'',
           ExitCode := 0\<rparr>))
   \<and> sublist (RIGHT_ARROW
         @ '' Exit code 137: Killed by SIGKILL (usually OOM or forced termination)'')
        (Explain crash_info)
   \<and> sublist ''fatal: OOM'' (Explain crash_info)"
proof -
  have g: "gatherFailureInfo demo_api (New () demo_opts) demo_pod demo_status
       \<lparr>waiting_Reason = ''CrashLoopBackOff'',
        waiting_Message = ''back-off restarting failed container''\<rparr>
     = (crash_info\<lparr>Message := ''back-off restarting failed container'', ExitCode := 0\<rparr>,
        New () demo_opts)"
    by (simp add: gatherFailureInfo_def getLastLog_def demo_api_def demo_pod_def
        demo_status_def crash_info_def New_def)
  let ?w = "\<lparr>waiting_Reason = ''CrashLoopBackOff'',
        waiting_Message = ''back-off restarting failed container''\<rparr>"
  let ?i = "crash_info\<lparr>Message := ''back-off restarting failed container'', ExitCode := 0\<rparr>"
  have h: "pod_Namespace demo_pod = ''prod'' \<and> status_Name demo_status = ''app''
      \<and> waiting_Reason ?w = ''CrashLoopBackOff''
      \<and> gatherFailureInfo demo_api (New () demo_opts) demo_pod demo_status ?w
          = (?i, New () demo_opts)
      \<and> LastLog ?i = ''fatal: OOM''"
    using g by (simp add: demo_pod_def demo_status_def crash_info_def)
  have k: "Reason crash_info = ''CrashLoopBackOff'' \<and> ExitCode crash_info = 137
      \<and> LastLog crash_info = ''fatal: OOM''"
    by (simp add: crash_info_def)
  note t = crash_loop_scenario [where pod = demo_pod and cs = demo_status and waiting = ?w
      and api = demo_api and d = "New () demo_opts" and info = ?i
      and ?d1.0 = "New () demo_opts" and r = crash_info
      and lts = "\<lparr>Waiting = None, Running = None, Terminated = None\<rparr>"]
  from t h have 1: "sublist ''fatal: OOM'' (Explain ?i)" by blast
  from t k have 2: "sublist (RIGHT_ARROW
         @ '' Exit code 137: Killed by SIGKILL (usually OOM or forced termination)'')
        (Explain crash_info)" "sublist ''fatal: OOM'' (Explain crash_info)"
    by blast+
  from g 1 2 show ?thesis by blast
qed

section \<open>The out-of-memory template\<close>

text \<open>
  C10. The classifier rejects the reason OOMKilled, so for a container status in the
  Waiting state with that reason the waiting check does nothing, and with no terminated
  state the whole loop body forms no key and leaves the detector as it was. \<open>Explain\<close>
  uses the out-of-memory template exactly for the records whose reason is OOMKilled, and
  every such record that checking a pod adds to the history was built from a container
  status of the pod in the Terminated state, with a non-zero exit code and the reason
  OOMKilled given by the cluster.
\<close>

theorem oom_template_only_from_terminated:
  "\<not> isFailureReason ''OOMKilled''
   \<and> (Waiting (State cs) = Some waiting \<and> waiting_Reason waiting = ''OOMKilled''
        \<longrightarrow> checkWaiting api pod podKey d cs = d
          \<and> (Terminated (State cs) = None
                \<longrightarrow> statusKeys pod cs = [] \<and> checkContainerStatus api pod podKey d cs = d))
   \<and> (Explain info = header info @ explainOOMKilled info \<longleftrightarrow> Reason info = ''OOMKilled'')
   \<and> (explained (checkPod api d pod) = explained d @ new \<and> (k, info) \<in> set new
        \<and> Reason info = ''OOMKilled''
        \<longrightarrow> (\<exists>c \<in> set (ContainerStatuses pod). \<exists>terminated.
               Terminated (State c) = Some terminated
               \<and> terminated_ExitCode terminated \<noteq> 0
               \<and> terminated_Reason terminated = ''OOMKilled''
               \<and> from_terminated pod c info))"
proof (intro conjI impI)
  show no: "\<not> isFailureReason ''OOMKilled''"
    by (simp add: isFailureReason_def)
  show "Explain info = header info @ explainOOMKilled info \<longleftrightarrow> Reason info = ''OOMKilled''"
    using oom_differs [of info, symmetric] oom_differs_generic [of info, symmetric]
    by (simp add: Explain_template)
  {
    assume w: "Waiting (State cs) = Some waiting \<and> waiting_Reason waiting = ''OOMKilled''"
    with no show skip: "checkWaiting api pod podKey d cs = d"
      by (simp add: checkWaiting_def)
    assume "Terminated (State cs) = None"
    with w no skip show "statusKeys pod cs = []"
      and "checkContainerStatus api pod podKey d cs = d"
      by (simp_all add: statusKeys_def checkContainerStatus_def checkTerminated_def)
  }
  assume a: "explained (checkPod api d pod) = explained d @ new \<and> (k, info) \<in> set new
        \<and> Reason info = ''OOMKilled''"
  then have "list_all (\<lambda>e. \<exists>c \<in> set (ContainerStatuses pod).
           from_waiting pod c (snd e) \<or> from_terminated pod c (snd e)) new"
    using adds_new [OF adds_checkPod_origin] by blast
  with a obtain c where c: "c \<in> set (ContainerStatuses pod)"
      "from_waiting pod c info \<or> from_terminated pod c info"
    by (auto simp add: list_all_iff)
  have "\<not> from_waiting pod c info"
    using a no by (auto simp add: from_waiting_def split: option.splits)
  with c(2) have t: "from_terminated pod c info" by simp
  then obtain terminated where "Terminated (State c) = Some terminated"
      "terminated_ExitCode terminated \<noteq> 0"
      "Reason info = (if terminated_Reason terminated = '''' then ''CrashLoopBackOff''
         else terminated_Reason terminated)"
    by (auto simp add: from_terminated_def split: option.splits)
  moreover from this a have "terminated_Reason terminated = ''OOMKilled''"
    by (auto split: if_splits)
  ultimately show "\<exists>c \<in> set (ContainerStatuses pod). \<exists>terminated.
               Terminated (State c) = Some terminated
               \<and> terminated_ExitCode terminated \<noteq> 0
               \<and> terminated_Reason terminated = ''OOMKilled''
               \<and> from_terminated pod c info"
    using c(1) t by blast
qed

text \<open>
  On the demonstration cluster: the waiting status with reason OOMKilled is passed over,
  and the record explained for the pod \<open>cache\<close> comes from its terminated container.
\<close>

theorem oom_template_only_from_terminated_witness:
  "checkContainerStatus demo_api oom_pod (podKey_of oom_pod) (New () demo_opts) oom_waiting_status
     = New () demo_opts
   \<and> explained (checkPod demo_api (New () demo_opts) oom_pod)
       = [(''prod/cache-redis-terminated-137'',
           \<lparr>PodName = ''cache'', Namespace = ''prod'', ContainerName = ''redis'',
            Reason = ''OOMKilled'', Message = [], ExitCode = 137, LastLog = ''fatal: OOM''\<rparr>)]
   \<and> (\<exists>c \<in> set (ContainerStatuses oom_pod). \<exists>terminated.
         Terminated (State c) = Some terminated \<and> terminated_ExitCode terminated \<noteq> 0
         \<and> terminated_Reason terminated = ''OOMKilled'')
   \<and> Explain oom_info = header oom_info @ explainOOMKilled oom_info"
proof -
  let ?i = "\<lparr>PodName = ''cache'', Namespace = ''prod'', ContainerName = ''redis'',
            Reason = ''OOMKilled'', Message = [], ExitCode = 137, LastLog = ''fatal: OOM''\<rparr>"
  let ?k = "''prod/cache-redis-terminated-137''"
  let ?w = "\<lparr>waiting_Reason = ''OOMKilled'', waiting_Message = []\<rparr>"
  have run: "explained (checkPod demo_api (New () demo_opts) oom_pod) = [(?k, ?i)]"
    by (simp add: checkPod_def checkContainerStatus_def checkWaiting_def checkTerminated_def
        oom_pod_def oom_status_def oom_state_def podKey_of_def terminatedKey_def fmt_d_def
        digits.simps seen_at_def New_def gatherTerminationInfo_def getLastLog_def demo_api_def
        Let_def)
  have w: "Waiting (State oom_waiting_status) = Some ?w \<and> waiting_Reason ?w = ''OOMKilled''"
    by (simp add: oom_waiting_status_def)
  have t: "Terminated (State oom_waiting_status) = None"
    by (simp add: oom_waiting_status_def)
  have h: "explained (checkPod demo_api (New () demo_opts) oom_pod)
        = explained (New () demo_opts) @ [(?k, ?i)]
      \<and> (?k, ?i) \<in> set [(?k, ?i)] \<and> Reason ?i = ''OOMKilled''"
    using run by (simp add: New_def)
  note th = oom_template_only_from_terminated [where cs = oom_waiting_status
      and waiting = ?w and api = demo_api and pod = oom_pod and podKey = "podKey_of oom_pod"
      and d = "New () demo_opts" and new = "[(?k, ?i)]" and k = ?k]
  from th [where info = ?i] w t
  have 1: "checkContainerStatus demo_api oom_pod (podKey_of oom_pod) (New () demo_opts)
      oom_waiting_status = New () demo_opts"
    by blast
  from th [where info = ?i] h
  have 2: "\<exists>c \<in> set (ContainerStatuses oom_pod). \<exists>terminated.
         Terminated (State c) = Some terminated \<and> terminated_ExitCode terminated \<noteq> 0
         \<and> terminated_Reason terminated = ''OOMKilled''"
    by blast
  from th [where info = oom_info]
  have 3: "Explain oom_info = header oom_info @ explainOOMKilled oom_info"
    by (simp add: oom_info_def)
  from run 1 2 3 show ?thesis by blast
qed

end
